theory Spec2Isabelle
  imports Main "HOL-Library.Word" "HOL-Library.Signed_Division"
begin

unbundle bit_operations_syntax

section \<open>YQL values: data model\<close>

text \<open>
  Shallow embedding of \<^verbatim>\<open>src/yb/common/yql_value.h\<close> and
  \<^verbatim>\<open>src/yb/common/yql_value.cc\<close>.

  A \<^verbatim>\<open>LOG(FATAL)\<close> or a failed \<^verbatim>\<open>CHECK\<close> aborts the process: the function
  does not return. This is the value \<open>Fatal\<close>; a normal return of \<open>x\<close> is \<open>Done x\<close>.
\<close>

datatype 'a outcome = Fatal | Done 'a

definition obind :: "'a outcome \<Rightarrow> ('a \<Rightarrow> 'b outcome) \<Rightarrow> 'b outcome" where
  "obind m f = (case m of Fatal \<Rightarrow> Fatal | Done x \<Rightarrow> f x)"

type_synonym byte = "8 word"

text \<open>Modelled from the spec: the \<^verbatim>\<open>DataType\<close> enumeration comes with the generated
  header \<^verbatim>\<open>yb/common/yql_protocol.pb.h\<close>, which is not among the sources. Its values are the nine
  supported kinds, which the switches of the source list, and the six unsupported ones of
  \<^verbatim>\<open>YQL_UNSUPPORTED_TYPES_IN_SWITCH\<close>.\<close>

datatype DataType =
    INT8 | INT16 | INT32 | INT64 | FLOAT | DOUBLE | STRING | BOOL | TIMESTAMP
  | UINT8 | UINT16 | UINT32 | UINT64 | BINARY | UNKNOWN_DATA

text \<open>Modelled from the spec: the \<^verbatim>\<open>YQLClient\<close> enumeration of the wire dialects is not
  among the sources. The code accepts \<^verbatim>\<open>YQL_CLIENT_CQL\<close> only
  (\<^verbatim>\<open>CHECK_EQ(client, YQL_CLIENT_CQL)\<close>); the second constructor stands for any other
  value of the enumeration.\<close>

datatype YQLClient = YQL_CLIENT_CQL | YQL_CLIENT_OTHER

text \<open>Modelled from the spec: \<^verbatim>\<open>yb/util/status.h\<close> is not among the sources. A
  \<^verbatim>\<open>Status\<close> is success or a recoverable failure; the one failure that reaches the code
  is the error of a decode helper.\<close>

datatype Status = OK | NetworkError

text \<open>
  Modelled from the spec: the record \<^verbatim>\<open>YQLValuePB\<close> is generated code
  (\<^verbatim>\<open>yb/common/yql_protocol.pb.h\<close>), which is not among the sources. It is a tagged union
  with one mutually exclusive field for each supported kind and no field for null; the
  fields are those the source reads (\<^verbatim>\<open>value_case()\<close>, \<^verbatim>\<open>int8_value()\<close>, ...).
  Protobuf has no 8 or 16 bit scalars: the \<^verbatim>\<open>int8_value\<close> and \<^verbatim>\<open>int16_value\<close> fields are
  32 bit wide, which is why the static \<^verbatim>\<open>Serialize\<close> narrows them with
  \<^verbatim>\<open>static_cast<int8_t>\<close> and \<^verbatim>\<open>static_cast<int16_t>\<close> and passes \<^verbatim>\<open>int32_value\<close> as
  it is. A \<^verbatim>\<open>float\<close> or \<^verbatim>\<open>double\<close> is represented by its IEEE-754 bit pattern, a
  \<^verbatim>\<open>std::string\<close> by its bytes.
\<close>

datatype YQLValuePB =
    NotSet
  | Int8Field "32 word"
  | Int16Field "32 word"
  | Int32Field "32 word"
  | Int64Field "64 word"
  | FloatField "32 word"
  | DoubleField "64 word"
  | StringField string
  | BoolField bool
  | TimestampField "64 word"

datatype ValueCase =
    kInt8Value | kInt16Value | kInt32Value | kInt64Value | kFloatValue | kDoubleValue
  | kStringValue | kBoolValue | kTimestampValue | VALUE_NOT_SET

fun value_case :: "YQLValuePB \<Rightarrow> ValueCase" where
  "value_case NotSet = VALUE_NOT_SET"
| "value_case (Int8Field _) = kInt8Value"
| "value_case (Int16Field _) = kInt16Value"
| "value_case (Int32Field _) = kInt32Value"
| "value_case (Int64Field _) = kInt64Value"
| "value_case (FloatField _) = kFloatValue"
| "value_case (DoubleField _) = kDoubleValue"
| "value_case (StringField _) = kStringValue"
| "value_case (BoolField _) = kBoolValue"
| "value_case (TimestampField _) = kTimestampValue"

subsection \<open>Static functions on the bare record\<close>

text \<open>\<^verbatim>\<open>YQLValue::type(const YQLValuePB&)\<close>.\<close>

definition type_PB :: "YQLValuePB \<Rightarrow> DataType" where
  "type_PB v =
     (case value_case v of
        kInt8Value \<Rightarrow> INT8
      | kInt16Value \<Rightarrow> INT16
      | kInt32Value \<Rightarrow> INT32
      | kInt64Value \<Rightarrow> INT64
      | kFloatValue \<Rightarrow> FLOAT
      | kDoubleValue \<Rightarrow> DOUBLE
      | kStringValue \<Rightarrow> STRING
      | kBoolValue \<Rightarrow> BOOL
      | kTimestampValue \<Rightarrow> TIMESTAMP
      | VALUE_NOT_SET \<Rightarrow> UNKNOWN_DATA)"

text \<open>\<^verbatim>\<open>YQLValue::IsNull(const YQLValuePB&)\<close>.\<close>

definition IsNull :: "YQLValuePB \<Rightarrow> bool" where
  "IsNull v = (value_case v = VALUE_NOT_SET)"

text \<open>\<^verbatim>\<open>YQLValue::SetNull(YQLValuePB*)\<close>: every case of the switch clears the active
  field and returns; the \<^verbatim>\<open>LOG(FATAL)\<close> after the switch is reached by no case.\<close>

definition SetNull :: "YQLValuePB \<Rightarrow> YQLValuePB outcome" where
  "SetNull v =
     (case value_case v of
        kInt8Value \<Rightarrow> Done NotSet
      | kInt16Value \<Rightarrow> Done NotSet
      | kInt32Value \<Rightarrow> Done NotSet
      | kInt64Value \<Rightarrow> Done NotSet
      | kFloatValue \<Rightarrow> Done NotSet
      | kDoubleValue \<Rightarrow> Done NotSet
      | kStringValue \<Rightarrow> Done NotSet
      | kBoolValue \<Rightarrow> Done NotSet
      | kTimestampValue \<Rightarrow> Done NotSet
      | VALUE_NOT_SET \<Rightarrow> Done v)"

subsubsection \<open>Getters and setters\<close>

text \<open>
  \<^verbatim>\<open>YQL_GET_VALUE(v, type, field)\<close> is \<^verbatim>\<open>CHECK(v.has_field()); return
  static_cast<type>(v.field())\<close>: it aborts unless the field is the active one, and
  narrows the 32 bit field for \<^verbatim>\<open>int8_t\<close> and \<^verbatim>\<open>int16_t\<close>.
\<close>

definition int8_value :: "YQLValuePB \<Rightarrow> 8 word outcome" where
  "int8_value v = (case v of Int8Field x \<Rightarrow> Done (ucast x) | _ \<Rightarrow> Fatal)"

definition int16_value :: "YQLValuePB \<Rightarrow> 16 word outcome" where
  "int16_value v = (case v of Int16Field x \<Rightarrow> Done (ucast x) | _ \<Rightarrow> Fatal)"

definition int32_value :: "YQLValuePB \<Rightarrow> 32 word outcome" where
  "int32_value v = (case v of Int32Field x \<Rightarrow> Done x | _ \<Rightarrow> Fatal)"

definition int64_value :: "YQLValuePB \<Rightarrow> 64 word outcome" where
  "int64_value v = (case v of Int64Field x \<Rightarrow> Done x | _ \<Rightarrow> Fatal)"

definition float_value :: "YQLValuePB \<Rightarrow> 32 word outcome" where
  "float_value v = (case v of FloatField x \<Rightarrow> Done x | _ \<Rightarrow> Fatal)"

definition double_value :: "YQLValuePB \<Rightarrow> 64 word outcome" where
  "double_value v = (case v of DoubleField x \<Rightarrow> Done x | _ \<Rightarrow> Fatal)"

definition bool_value :: "YQLValuePB \<Rightarrow> bool outcome" where
  "bool_value v = (case v of BoolField x \<Rightarrow> Done x | _ \<Rightarrow> Fatal)"

definition string_value :: "YQLValuePB \<Rightarrow> string outcome" where
  "string_value v = (case v of StringField x \<Rightarrow> Done x | _ \<Rightarrow> Fatal)"

text \<open>Modelled from the spec: \<^verbatim>\<open>yb/util/timestamp.h\<close> is not among the sources. A
  \<^verbatim>\<open>Timestamp\<close> is a signed 64 bit count of time units at the internal precision;
  \<^verbatim>\<open>Timestamp(x)\<close> wraps the count and \<^verbatim>\<open>ToInt64()\<close> returns it.\<close>

definition timestamp_value :: "YQLValuePB \<Rightarrow> 64 word outcome" where
  "timestamp_value v = (case v of TimestampField x \<Rightarrow> Done x | _ \<Rightarrow> Fatal)"

text \<open>Modelled from the spec: the accessors of the generated record. An accessor that
  protobuf generates for a member of a \<^verbatim>\<open>oneof\<close> returns the field when it is the
  active one and the default otherwise.\<close>

definition pb_int8_value :: "YQLValuePB \<Rightarrow> 32 word" where
  "pb_int8_value v = (case v of Int8Field x \<Rightarrow> x | _ \<Rightarrow> 0)"

definition pb_int16_value :: "YQLValuePB \<Rightarrow> 32 word" where
  "pb_int16_value v = (case v of Int16Field x \<Rightarrow> x | _ \<Rightarrow> 0)"

definition pb_int32_value :: "YQLValuePB \<Rightarrow> 32 word" where
  "pb_int32_value v = (case v of Int32Field x \<Rightarrow> x | _ \<Rightarrow> 0)"

definition pb_int64_value :: "YQLValuePB \<Rightarrow> 64 word" where
  "pb_int64_value v = (case v of Int64Field x \<Rightarrow> x | _ \<Rightarrow> 0)"

definition pb_float_value :: "YQLValuePB \<Rightarrow> 32 word" where
  "pb_float_value v = (case v of FloatField x \<Rightarrow> x | _ \<Rightarrow> 0)"

definition pb_double_value :: "YQLValuePB \<Rightarrow> 64 word" where
  "pb_double_value v = (case v of DoubleField x \<Rightarrow> x | _ \<Rightarrow> 0)"

definition pb_bool_value :: "YQLValuePB \<Rightarrow> bool" where
  "pb_bool_value v = (case v of BoolField x \<Rightarrow> x | _ \<Rightarrow> False)"

definition pb_string_value :: "YQLValuePB \<Rightarrow> string" where
  "pb_string_value v = (case v of StringField x \<Rightarrow> x | _ \<Rightarrow> [])"

definition pb_timestamp_value :: "YQLValuePB \<Rightarrow> 64 word" where
  "pb_timestamp_value v = (case v of TimestampField x \<Rightarrow> x | _ \<Rightarrow> 0)"

text \<open>The setters make their field the active one. An \<^verbatim>\<open>int8_t\<close> or \<^verbatim>\<open>int16_t\<close>
  argument is sign-extended into the 32 bit field.\<close>

definition set_int8_value :: "8 word \<Rightarrow> YQLValuePB \<Rightarrow> YQLValuePB" where
  "set_int8_value val v = Int8Field (scast val)"

definition set_int16_value :: "16 word \<Rightarrow> YQLValuePB \<Rightarrow> YQLValuePB" where
  "set_int16_value val v = Int16Field (scast val)"

definition set_int32_value :: "32 word \<Rightarrow> YQLValuePB \<Rightarrow> YQLValuePB" where
  "set_int32_value val v = Int32Field val"

definition set_int64_value :: "64 word \<Rightarrow> YQLValuePB \<Rightarrow> YQLValuePB" where
  "set_int64_value val v = Int64Field val"

definition set_float_value :: "32 word \<Rightarrow> YQLValuePB \<Rightarrow> YQLValuePB" where
  "set_float_value val v = FloatField val"

definition set_double_value :: "64 word \<Rightarrow> YQLValuePB \<Rightarrow> YQLValuePB" where
  "set_double_value val v = DoubleField val"

definition set_bool_value :: "bool \<Rightarrow> YQLValuePB \<Rightarrow> YQLValuePB" where
  "set_bool_value val v = BoolField val"

definition set_string_value :: "string \<Rightarrow> YQLValuePB \<Rightarrow> YQLValuePB" where
  "set_string_value val v = StringField val"

definition set_timestamp_value :: "64 word \<Rightarrow> YQLValuePB \<Rightarrow> YQLValuePB" where
  "set_timestamp_value val v = TimestampField val"

subsubsection \<open>Comparison\<close>

definition EitherIsNull :: "YQLValuePB \<Rightarrow> YQLValuePB \<Rightarrow> bool" where
  "EitherIsNull lhs rhs = (IsNull lhs \<or> IsNull rhs)"

definition BothNotNull :: "YQLValuePB \<Rightarrow> YQLValuePB \<Rightarrow> bool" where
  "BothNotNull lhs rhs = (\<not> IsNull lhs \<and> \<not> IsNull rhs)"

definition Comparable :: "YQLValuePB \<Rightarrow> YQLValuePB \<Rightarrow> bool" where
  "Comparable lhs rhs = (value_case lhs = value_case rhs \<or> EitherIsNull lhs rhs)"

text \<open>\<^verbatim>\<open>GenericCompare<T>\<close>, with the \<^verbatim>\<open>operator<\<close> of \<open>T\<close> as its first argument;
  \<^verbatim>\<open>lhs > rhs\<close> on a built-in type is \<^verbatim>\<open>rhs < lhs\<close>.\<close>

definition GenericCompare :: "('a \<Rightarrow> 'a \<Rightarrow> bool) \<Rightarrow> 'a \<Rightarrow> 'a \<Rightarrow> int" where
  "GenericCompare lt lhs rhs = (if lt lhs rhs then - 1 else if lt rhs lhs then 1 else 0)"

text \<open>
  The \<^verbatim>\<open><\<close> of IEEE-754 on the bit pattern of a binary interchange format: with the sign
  bit removed the pattern is the magnitude, a pattern above that of infinity is a NaN,
  and a NaN is below nothing and nothing is below it. Both zeros have key 0.
\<close>

definition float_key :: "'a::len word \<Rightarrow> int" where
  "float_key w =
     (if bit w (LENGTH('a) - 1) then - uint (take_bit (LENGTH('a) - 1) w)
      else uint (take_bit (LENGTH('a) - 1) w))"

definition float_is_nan :: "'a::len word \<Rightarrow> 'a word \<Rightarrow> bool" where
  "float_is_nan infty w = (uint infty < uint (take_bit (LENGTH('a) - 1) w))"

definition float_less :: "'a::len word \<Rightarrow> 'a word \<Rightarrow> 'a word \<Rightarrow> bool" where
  "float_less infty a b =
     (\<not> float_is_nan infty a \<and> \<not> float_is_nan infty b \<and> float_key a < float_key b)"

definition float32_less :: "32 word \<Rightarrow> 32 word \<Rightarrow> bool" where
  "float32_less = float_less 0x7F800000"

definition float64_less :: "64 word \<Rightarrow> 64 word \<Rightarrow> bool" where
  "float64_less = float_less 0x7FF0000000000000"

text \<open>
  \<^verbatim>\<open>std::string::compare\<close> as libstdc++ implements it: \<^verbatim>\<open>char_traits<char>::compare\<close>
  (that is \<^verbatim>\<open>memcmp\<close>) on the common prefix and, when that is 0, the difference of the
  lengths clamped to the range of \<^verbatim>\<open>int\<close>. \<^verbatim>\<open>memcmp\<close> compares bytes as
  \<^verbatim>\<open>unsigned char\<close>; at the first differing pair the model returns their difference.
  The C++ standard fixes the sign of the result only.
\<close>

fun memcmp :: "string \<Rightarrow> string \<Rightarrow> nat \<Rightarrow> int" where
  "memcmp (x # xs) (y # ys) (Suc n) =
     (if x = y then memcmp xs ys n else int (of_char x) - int (of_char y))"
| "memcmp _ _ _ = 0"

definition S_compare :: "nat \<Rightarrow> nat \<Rightarrow> int" where
  "S_compare n1 n2 =
     (let d = int n1 - int n2 in
      if d > 2147483647 then 2147483647
      else if d < - 2147483648 then - 2147483648
      else d)"

definition string_compare :: "string \<Rightarrow> string \<Rightarrow> int" where
  "string_compare s t =
     (let r = memcmp s t (min (length s) (length t)) in
      if r \<noteq> 0 then r else S_compare (length s) (length t))"

text \<open>\<^verbatim>\<open>YQLValue::CompareTo(const YQLValuePB&, const YQLValuePB&)\<close>. The two \<^verbatim>\<open>CHECK\<close>s
  come first; the Int8 and Int16 cases compare the 32 bit fields as they are.\<close>

definition CompareTo :: "YQLValuePB \<Rightarrow> YQLValuePB \<Rightarrow> int outcome" where
  "CompareTo lhs rhs =
     (if \<not> Comparable lhs rhs then Fatal
      else if \<not> BothNotNull lhs rhs then Fatal
      else case value_case lhs of
        kInt8Value \<Rightarrow> Done (GenericCompare word_sless (pb_int8_value lhs) (pb_int8_value rhs))
      | kInt16Value \<Rightarrow> Done (GenericCompare word_sless (pb_int16_value lhs) (pb_int16_value rhs))
      | kInt32Value \<Rightarrow> Done (GenericCompare word_sless (pb_int32_value lhs) (pb_int32_value rhs))
      | kInt64Value \<Rightarrow> Done (GenericCompare word_sless (pb_int64_value lhs) (pb_int64_value rhs))
      | kFloatValue \<Rightarrow> Done (GenericCompare float32_less (pb_float_value lhs) (pb_float_value rhs))
      | kDoubleValue \<Rightarrow>
          Done (GenericCompare float64_less (pb_double_value lhs) (pb_double_value rhs))
      | kStringValue \<Rightarrow> Done (string_compare (pb_string_value lhs) (pb_string_value rhs))
      | kBoolValue \<Rightarrow> Fatal
      | kTimestampValue \<Rightarrow>
          Done (GenericCompare word_sless (pb_timestamp_value lhs) (pb_timestamp_value rhs))
      | VALUE_NOT_SET \<Rightarrow> Fatal)"

text \<open>The \<^verbatim>\<open>YQLValuePB\<close> operators: \<^verbatim>\<open>YQL_COMPARE(lhs, rhs, op)\<close> is
  \<^verbatim>\<open>BothNotNull(lhs, rhs) && CompareTo(lhs, rhs) op 0\<close>, and \<^verbatim>\<open>&&\<close> does not evaluate
  its right operand when the left one is false.\<close>

definition YQL_COMPARE :: "YQLValuePB \<Rightarrow> YQLValuePB \<Rightarrow> (int \<Rightarrow> bool) \<Rightarrow> bool outcome" where
  "YQL_COMPARE lhs rhs op =
     (if \<not> BothNotNull lhs rhs then Done False
      else obind (CompareTo lhs rhs) (\<lambda>c. Done (op c)))"

definition PB_less :: "YQLValuePB \<Rightarrow> YQLValuePB \<Rightarrow> bool outcome" where
  "PB_less lhs rhs = YQL_COMPARE lhs rhs (\<lambda>c. c < 0)"

definition PB_greater :: "YQLValuePB \<Rightarrow> YQLValuePB \<Rightarrow> bool outcome" where
  "PB_greater lhs rhs = YQL_COMPARE lhs rhs (\<lambda>c. c > 0)"

definition PB_less_eq :: "YQLValuePB \<Rightarrow> YQLValuePB \<Rightarrow> bool outcome" where
  "PB_less_eq lhs rhs = YQL_COMPARE lhs rhs (\<lambda>c. c \<le> 0)"

definition PB_greater_eq :: "YQLValuePB \<Rightarrow> YQLValuePB \<Rightarrow> bool outcome" where
  "PB_greater_eq lhs rhs = YQL_COMPARE lhs rhs (\<lambda>c. c \<ge> 0)"

definition PB_equal :: "YQLValuePB \<Rightarrow> YQLValuePB \<Rightarrow> bool outcome" where
  "PB_equal lhs rhs = YQL_COMPARE lhs rhs (\<lambda>c. c = 0)"

definition PB_not_equal :: "YQLValuePB \<Rightarrow> YQLValuePB \<Rightarrow> bool outcome" where
  "PB_not_equal lhs rhs = YQL_COMPARE lhs rhs (\<lambda>c. c \<noteq> 0)"

subsubsection \<open>The wire helpers\<close>

text \<open>
  Modelled from the spec: the byte-order converters (\<^verbatim>\<open>NetworkByteOrder::Store16\<close>,
  \<^verbatim>\<open>Load16\<close> and so on, \<^verbatim>\<open>Store8\<close>, \<^verbatim>\<open>Load8\<close>) are not among the sources. All
  multi-byte fields are in network byte order, most significant byte first. A store
  yields the bytes it writes; a load reads from the front of the slice, and its callers
  check that the slice is long enough.
\<close>

definition Store8 :: "8 word \<Rightarrow> byte list" where
  "Store8 v = [v]"

text \<open>Modelled from the spec: \<^verbatim>\<open>NetworkByteOrder::Store16\<close>, big-endian.\<close>

definition Store16 :: "16 word \<Rightarrow> byte list" where
  "Store16 v = [ucast (drop_bit 8 v), ucast v]"

text \<open>Modelled from the spec: \<^verbatim>\<open>NetworkByteOrder::Store32\<close>, big-endian.\<close>

definition Store32 :: "32 word \<Rightarrow> byte list" where
  "Store32 v = [ucast (drop_bit 24 v), ucast (drop_bit 16 v), ucast (drop_bit 8 v), ucast v]"

text \<open>Modelled from the spec: \<^verbatim>\<open>NetworkByteOrder::Store64\<close>, big-endian.\<close>

definition Store64 :: "64 word \<Rightarrow> byte list" where
  "Store64 v =
     [ucast (drop_bit 56 v), ucast (drop_bit 48 v), ucast (drop_bit 40 v),
      ucast (drop_bit 32 v), ucast (drop_bit 24 v), ucast (drop_bit 16 v),
      ucast (drop_bit 8 v), ucast v]"

text \<open>Modelled from the spec: \<^verbatim>\<open>Load8\<close>, the first byte of the slice.\<close>

definition Load8 :: "byte list \<Rightarrow> 8 word" where
  "Load8 p = (case p of b0 # _ \<Rightarrow> b0 | _ \<Rightarrow> 0)"

text \<open>Modelled from the spec: \<^verbatim>\<open>NetworkByteOrder::Load16\<close>, big-endian.\<close>

definition Load16 :: "byte list \<Rightarrow> 16 word" where
  "Load16 p = (case p of b0 # b1 # _ \<Rightarrow> push_bit 8 (ucast b0) OR ucast b1 | _ \<Rightarrow> 0)"

text \<open>Modelled from the spec: \<^verbatim>\<open>NetworkByteOrder::Load32\<close>, big-endian.\<close>

definition Load32 :: "byte list \<Rightarrow> 32 word" where
  "Load32 p =
     (case p of
        b0 # b1 # b2 # b3 # _ \<Rightarrow>
          push_bit 24 (ucast b0) OR push_bit 16 (ucast b1) OR push_bit 8 (ucast b2) OR ucast b3
      | _ \<Rightarrow> 0)"

text \<open>Modelled from the spec: \<^verbatim>\<open>NetworkByteOrder::Load64\<close>, big-endian.\<close>

definition Load64 :: "byte list \<Rightarrow> 64 word" where
  "Load64 p =
     (case p of
        b0 # b1 # b2 # b3 # b4 # b5 # b6 # b7 # _ \<Rightarrow>
          push_bit 56 (ucast b0) OR push_bit 48 (ucast b1) OR push_bit 40 (ucast b2)
          OR push_bit 32 (ucast b3) OR push_bit 24 (ucast b4) OR push_bit 16 (ucast b5)
          OR push_bit 8 (ucast b6) OR ucast b7
      | _ \<Rightarrow> 0)"

text \<open>The bytes of a \<^verbatim>\<open>std::string\<close>.\<close>

definition byte_of_char :: "char \<Rightarrow> byte" where
  "byte_of_char c = of_nat (of_char c)"

definition char_of_byte :: "byte \<Rightarrow> char" where
  "char_of_byte b = char_of (unat b)"

text \<open>
  Modelled from the spec: the encoders of \<^verbatim>\<open>yb/common/wire_protocol.h\<close> are not among
  the sources. A value on the wire is a 4 byte big-endian signed length followed by the
  payload; the length is emitted for every kind, and for a number it is the width of
  the number. The encoders append to the buffer.
\<close>

definition CQLEncodeLength :: "32 word \<Rightarrow> byte list \<Rightarrow> byte list" where
  "CQLEncodeLength length_val buffer = buffer @ Store32 length_val"

text \<open>Modelled from the spec: \<^verbatim>\<open>CQLEncodeNum(converter, val, buffer)\<close> emits the width
  of the number as the length, then the converted number.\<close>

definition CQLEncodeNum :: "('a \<Rightarrow> byte list) \<Rightarrow> 'a \<Rightarrow> byte list \<Rightarrow> byte list" where
  "CQLEncodeNum converter val buffer =
     (let byte_value = converter val
      in CQLEncodeLength (of_nat (length byte_value)) buffer @ byte_value)"

text \<open>Modelled from the spec: \<^verbatim>\<open>CQLEncodeFloat\<close> emits the bit pattern of the floating
  point number as a number of the same width.\<close>

definition CQLEncodeFloat :: "('a \<Rightarrow> byte list) \<Rightarrow> 'a \<Rightarrow> byte list \<Rightarrow> byte list" where
  "CQLEncodeFloat converter val buffer = CQLEncodeNum converter val buffer"

text \<open>Modelled from the spec: \<^verbatim>\<open>CQLEncodeBytes\<close> emits the byte count as the length,
  then the raw bytes.\<close>

definition CQLEncodeBytes :: "string \<Rightarrow> byte list \<Rightarrow> byte list" where
  "CQLEncodeBytes val buffer =
     CQLEncodeLength (of_nat (length val)) buffer @ map byte_of_char val"

text \<open>
  Modelled from the spec: the decoders of \<^verbatim>\<open>yb/common/wire_protocol.h\<close> are not among
  the sources. Decoding a number checks the length against the exact width \<open>sz\<close> of the
  number and fails with a recoverable error when they disagree, or when fewer than
  \<open>sz\<close> bytes remain; decoding bytes fails when fewer than \<open>len\<close> bytes remain. A
  failing decoder returns the error (\<open>Inl\<close>) and leaves the slice and the destination as
  they were; a successful one returns the value and the rest of the slice.
\<close>

definition CQLDecodeNum ::
  "nat \<Rightarrow> nat \<Rightarrow> (byte list \<Rightarrow> 'a) \<Rightarrow> byte list \<Rightarrow> Status + ('a \<times> byte list)" where
  "CQLDecodeNum sz len converter data =
     (if len \<noteq> sz then Inl NetworkError
      else if length data < sz then Inl NetworkError
      else Inr (converter data, drop sz data))"

text \<open>Modelled from the spec: \<^verbatim>\<open>CQLDecodeFloat\<close> decodes a number of the same width and
  takes it as the bit pattern of the floating point number.\<close>

definition CQLDecodeFloat ::
  "nat \<Rightarrow> nat \<Rightarrow> (byte list \<Rightarrow> 'a) \<Rightarrow> byte list \<Rightarrow> Status + ('a \<times> byte list)" where
  "CQLDecodeFloat sz len converter data = CQLDecodeNum sz len converter data"

text \<open>Modelled from the spec: \<^verbatim>\<open>CQLDecodeBytes(len, data, val)\<close> takes \<open>len\<close> bytes, and
  fails when fewer remain.\<close>

definition CQLDecodeBytes :: "nat \<Rightarrow> byte list \<Rightarrow> Status + (string \<times> byte list)" where
  "CQLDecodeBytes len data =
     (if length data < len then Inl NetworkError
      else Inr (map char_of_byte (take len data), drop len data))"

text \<open>The \<^verbatim>\<open>int32_t len\<close> of \<^verbatim>\<open>Deserialize\<close> is passed as a \<^verbatim>\<open>size_t\<close>: the
  conversion sign-extends to 64 bits and reads the result as unsigned.\<close>

definition size_t_of_int32 :: "32 word \<Rightarrow> nat" where
  "size_t_of_int32 len = unat (scast len :: 64 word)"

text \<open>
  Modelled from the spec: \<^verbatim>\<open>yb/util/date_time.h\<close> is not among the sources. A
  precision is the granularity of a time value, the number of its units in one second;
  \<^verbatim>\<open>DateTime::internal_precision\<close> is that of a stored \<^verbatim>\<open>Timestamp\<close> and
  \<^verbatim>\<open>DateTime::CqlDateTimeInputFormat.input_precision()\<close> that of the wire. The spec
  gives neither number, so they are the two fields of a record that \<^verbatim>\<open>Serialize\<close> and
  \<^verbatim>\<open>Deserialize\<close> take. \<^verbatim>\<open>DateTime::AdjustPrecision(val, input_precision,
  output_precision)\<close> converts a count of units: to a finer or equal precision it
  multiplies by the ratio of the precisions (in 64 bit arithmetic), to a coarser one it
  divides by the ratio, and the division of C++ truncates towards zero.
\<close>

record DateTime =
  internal_precision :: nat
  input_precision :: nat

text \<open>Modelled from the spec: \<^verbatim>\<open>DateTime::AdjustPrecision(val, input_precision,
  output_precision)\<close>, as described above.\<close>

definition AdjustPrecision :: "64 word \<Rightarrow> nat \<Rightarrow> nat \<Rightarrow> 64 word" where
  "AdjustPrecision val input_prec output_prec =
     (if input_prec \<le> output_prec then val * of_nat (output_prec div input_prec)
      else word_of_int (sint val sdiv int (input_prec div output_prec)))"

text \<open>An example of the two precisions, for evaluating the code on concrete values: a
  store that counts microseconds behind a wire that counts milliseconds.\<close>

definition micros_millis :: DateTime where
  "micros_millis = \<lparr>internal_precision = 1000000, input_precision = 1000\<rparr>"

text \<open>The values whose Int8 or Int16 field holds a number of that width, as every value
  written by \<^verbatim>\<open>set_int8_value\<close> or \<^verbatim>\<open>set_int16_value\<close> does.\<close>

definition narrow_fields_in_range :: "YQLValuePB \<Rightarrow> bool" where
  "narrow_fields_in_range v =
     (case v of
        Int8Field x \<Rightarrow> scast (ucast x :: 8 word) = x
      | Int16Field x \<Rightarrow> scast (ucast x :: 16 word) = x
      | _ \<Rightarrow> True)"

subsubsection \<open>Serializer and deserializer\<close>

text \<open>\<^verbatim>\<open>YQLValue::Serialize(const YQLValuePB& v, YQLClient client, faststring* buffer)\<close>;
  the result is the buffer after the call.\<close>

definition Serialize :: "DateTime \<Rightarrow> YQLValuePB \<Rightarrow> YQLClient \<Rightarrow> byte list \<Rightarrow> byte list outcome"
  where
  "Serialize dt v client buffer =
     (if client \<noteq> YQL_CLIENT_CQL then Fatal
      else if IsNull v then Done (CQLEncodeLength (- 1) buffer)
      else case value_case v of
        kInt8Value \<Rightarrow> Done (CQLEncodeNum Store8 (ucast (pb_int8_value v)) buffer)
      | kInt16Value \<Rightarrow> Done (CQLEncodeNum Store16 (ucast (pb_int16_value v)) buffer)
      | kInt32Value \<Rightarrow> Done (CQLEncodeNum Store32 (pb_int32_value v) buffer)
      | kInt64Value \<Rightarrow> Done (CQLEncodeNum Store64 (pb_int64_value v) buffer)
      | kFloatValue \<Rightarrow> Done (CQLEncodeFloat Store32 (pb_float_value v) buffer)
      | kDoubleValue \<Rightarrow> Done (CQLEncodeFloat Store64 (pb_double_value v) buffer)
      | kStringValue \<Rightarrow> Done (CQLEncodeBytes (pb_string_value v) buffer)
      | kBoolValue \<Rightarrow> Done (CQLEncodeNum Store8 (if pb_bool_value v then 1 else 0) buffer)
      | kTimestampValue \<Rightarrow>
          Done (CQLEncodeNum Store64
                  (AdjustPrecision (pb_timestamp_value v)
                     (internal_precision dt) (input_precision dt))
                  buffer)
      | VALUE_NOT_SET \<Rightarrow> Fatal)"

text \<open>The static \<^verbatim>\<open>CQLDeserializeNum\<close> and \<^verbatim>\<open>CQLDeserializeFloat\<close> templates of the
  header: the setter runs only after the decoder has succeeded. The result is the
  status, the destination and the slice after the call.\<close>

definition CQLDeserializeNum ::
  "YQLValuePB \<Rightarrow> nat \<Rightarrow> nat \<Rightarrow> (byte list \<Rightarrow> 'a) \<Rightarrow> ('a \<Rightarrow> YQLValuePB \<Rightarrow> YQLValuePB)
     \<Rightarrow> byte list \<Rightarrow> Status \<times> YQLValuePB \<times> byte list" where
  "CQLDeserializeNum v sz len converter setter data =
     (case CQLDecodeNum sz len converter data of
        Inl s \<Rightarrow> (s, v, data)
      | Inr (val, data') \<Rightarrow> (OK, setter val v, data'))"

definition CQLDeserializeFloat ::
  "YQLValuePB \<Rightarrow> nat \<Rightarrow> nat \<Rightarrow> (byte list \<Rightarrow> 'a) \<Rightarrow> ('a \<Rightarrow> YQLValuePB \<Rightarrow> YQLValuePB)
     \<Rightarrow> byte list \<Rightarrow> Status \<times> YQLValuePB \<times> byte list" where
  "CQLDeserializeFloat v sz len converter setter data =
     (case CQLDecodeFloat sz len converter data of
        Inl s \<Rightarrow> (s, v, data)
      | Inr (val, data') \<Rightarrow> (OK, setter val v, data'))"

text \<open>The switch of \<^verbatim>\<open>Deserialize\<close> on the declared type, entered once the length
  has been read and is not \<open>-1\<close>.\<close>

definition Deserialize_switch ::
  "DateTime \<Rightarrow> YQLValuePB \<Rightarrow> DataType \<Rightarrow> 32 word \<Rightarrow> byte list
     \<Rightarrow> (Status \<times> YQLValuePB \<times> byte list) outcome" where
  "Deserialize_switch dt v type len data =
     (case type of
        INT8 \<Rightarrow> Done (CQLDeserializeNum v 1 (size_t_of_int32 len) Load8 set_int8_value data)
      | INT16 \<Rightarrow> Done (CQLDeserializeNum v 2 (size_t_of_int32 len) Load16 set_int16_value data)
      | INT32 \<Rightarrow> Done (CQLDeserializeNum v 4 (size_t_of_int32 len) Load32 set_int32_value data)
      | INT64 \<Rightarrow> Done (CQLDeserializeNum v 8 (size_t_of_int32 len) Load64 set_int64_value data)
      | FLOAT \<Rightarrow> Done (CQLDeserializeFloat v 4 (size_t_of_int32 len) Load32 set_float_value data)
      | DOUBLE \<Rightarrow>
          Done (CQLDeserializeFloat v 8 (size_t_of_int32 len) Load64 set_double_value data)
      | STRING \<Rightarrow>
          (case CQLDecodeBytes (size_t_of_int32 len) data of
             Inl s \<Rightarrow> Done (s, v, data)
           | Inr (val, data') \<Rightarrow> Done (OK, set_string_value val v, data'))
      | BOOL \<Rightarrow>
          (case CQLDecodeNum 1 (size_t_of_int32 len) Load8 data of
             Inl s \<Rightarrow> Done (s, v, data)
           | Inr (val, data') \<Rightarrow> Done (OK, set_bool_value (val \<noteq> 0) v, data'))
      | TIMESTAMP \<Rightarrow>
          (case CQLDecodeNum 8 (size_t_of_int32 len) Load64 data of
             Inl s \<Rightarrow> Done (s, v, data)
           | Inr (val, data') \<Rightarrow>
               Done (OK,
                     set_timestamp_value
                       (AdjustPrecision val (input_precision dt) (internal_precision dt)) v,
                     data'))
      | UINT8 \<Rightarrow> Fatal
      | UINT16 \<Rightarrow> Fatal
      | UINT32 \<Rightarrow> Fatal
      | UINT64 \<Rightarrow> Fatal
      | BINARY \<Rightarrow> Fatal
      | UNKNOWN_DATA \<Rightarrow> Fatal)"

text \<open>\<^verbatim>\<open>YQLValue::Deserialize(YQLValuePB* v, DataType type, YQLClient client, Slice*
  data)\<close>.\<close>

definition Deserialize ::
  "DateTime \<Rightarrow> YQLValuePB \<Rightarrow> DataType \<Rightarrow> YQLClient \<Rightarrow> byte list
     \<Rightarrow> (Status \<times> YQLValuePB \<times> byte list) outcome" where
  "Deserialize dt v type client data =
     (if client \<noteq> YQL_CLIENT_CQL then Fatal
      else case CQLDecodeNum 4 4 Load32 data of
        Inl s \<Rightarrow> Done (s, v, data)
      | Inr (len, data') \<Rightarrow>
          if len = - 1 then obind (SetNull v) (\<lambda>v'. Done (OK, v', data'))
          else Deserialize_switch dt v type len data')"

subsubsection \<open>Debug string\<close>

text \<open>\<^verbatim>\<open>DataType_Name\<close>, generated by protobuf, is the name of the enumerator.\<close>

fun DataType_Name :: "DataType \<Rightarrow> string" where
  "DataType_Name INT8 = ''INT8''"
| "DataType_Name INT16 = ''INT16''"
| "DataType_Name INT32 = ''INT32''"
| "DataType_Name INT64 = ''INT64''"
| "DataType_Name FLOAT = ''FLOAT''"
| "DataType_Name DOUBLE = ''DOUBLE''"
| "DataType_Name STRING = ''STRING''"
| "DataType_Name BOOL = ''BOOL''"
| "DataType_Name TIMESTAMP = ''TIMESTAMP''"
| "DataType_Name UINT8 = ''UINT8''"
| "DataType_Name UINT16 = ''UINT16''"
| "DataType_Name UINT32 = ''UINT32''"
| "DataType_Name UINT64 = ''UINT64''"
| "DataType_Name BINARY = ''BINARY''"
| "DataType_Name UNKNOWN_DATA = ''UNKNOWN_DATA''"

text \<open>\<^verbatim>\<open>std::to_string\<close> on an integer: its decimal digits, with a minus sign when it
  is negative.\<close>

function decimal :: "nat \<Rightarrow> string" where
  "decimal n =
     (if n < 10 then [char_of (48 + n)] else decimal (n div 10) @ [char_of (48 + n mod 10)])"
  by pat_completeness auto
termination
  by (relation "measure (\<lambda>n. n)") auto

declare decimal.simps [simp del]

definition to_string :: "int \<Rightarrow> string" where
  "to_string i = (if i < 0 then CHR ''-'' # decimal (nat (- i)) else decimal (nat i))"

text \<open>The formatters that are not among the sources and that the spec describes only
  loosely are parameters: \<^verbatim>\<open>std::to_string\<close> on a \<^verbatim>\<open>float\<close> and on a \<^verbatim>\<open>double\<close>,
  \<^verbatim>\<open>util::FormatBytesAsStr\<close> and \<^verbatim>\<open>Timestamp::ToFormattedString\<close>.\<close>

record Formatters =
  to_string_float :: "32 word \<Rightarrow> string"
  to_string_double :: "64 word \<Rightarrow> string"
  FormatBytesAsStr :: "string \<Rightarrow> string"
  ToFormattedString :: "64 word \<Rightarrow> string"

text \<open>\<^verbatim>\<open>YQLValue::ToString(const YQLValuePB& v)\<close>. The Int8 and Int16 cases print the
  32 bit fields as they are.\<close>

definition ToString :: "Formatters \<Rightarrow> YQLValuePB \<Rightarrow> string outcome" where
  "ToString fm v =
     (let s = DataType_Name (type_PB v) @ '':'' in
      if IsNull v then Done (s @ ''null'')
      else case value_case v of
        kInt8Value \<Rightarrow> Done (s @ to_string (sint (pb_int8_value v)))
      | kInt16Value \<Rightarrow> Done (s @ to_string (sint (pb_int16_value v)))
      | kInt32Value \<Rightarrow> Done (s @ to_string (sint (pb_int32_value v)))
      | kInt64Value \<Rightarrow> Done (s @ to_string (sint (pb_int64_value v)))
      | kFloatValue \<Rightarrow> Done (s @ to_string_float fm (pb_float_value v))
      | kDoubleValue \<Rightarrow> Done (s @ to_string_double fm (pb_double_value v))
      | kStringValue \<Rightarrow> Done (s @ FormatBytesAsStr fm (pb_string_value v))
      | kTimestampValue \<Rightarrow>
          obind (timestamp_value v) (\<lambda>t. Done (s @ ToFormattedString fm t))
      | kBoolValue \<Rightarrow> Done (s @ (if pb_bool_value v then ''true'' else ''false''))
      | VALUE_NOT_SET \<Rightarrow> Fatal)"

subsection \<open>The wrapper class and the methods of the abstract class\<close>

text \<open>
  \<^verbatim>\<open>YQLValueWithPB\<close> derives from \<^verbatim>\<open>YQLValue\<close> and \<^verbatim>\<open>YQLValuePB\<close>; its state is the
  record, and each override of a virtual method passes \<^verbatim>\<open>this\<close>, cast to the record,
  to the static function of the same name.
\<close>

definition YQLValueWithPB_type :: "YQLValuePB \<Rightarrow> DataType" where
  "YQLValueWithPB_type this = type_PB this"

definition YQLValueWithPB_IsNull :: "YQLValuePB \<Rightarrow> bool" where
  "YQLValueWithPB_IsNull this = IsNull this"

definition YQLValueWithPB_SetNull :: "YQLValuePB \<Rightarrow> YQLValuePB outcome" where
  "YQLValueWithPB_SetNull this = SetNull this"

definition YQLValueWithPB_int8_value :: "YQLValuePB \<Rightarrow> 8 word outcome" where
  "YQLValueWithPB_int8_value this = int8_value this"

definition YQLValueWithPB_int16_value :: "YQLValuePB \<Rightarrow> 16 word outcome" where
  "YQLValueWithPB_int16_value this = int16_value this"

definition YQLValueWithPB_int32_value :: "YQLValuePB \<Rightarrow> 32 word outcome" where
  "YQLValueWithPB_int32_value this = int32_value this"

definition YQLValueWithPB_int64_value :: "YQLValuePB \<Rightarrow> 64 word outcome" where
  "YQLValueWithPB_int64_value this = int64_value this"

definition YQLValueWithPB_float_value :: "YQLValuePB \<Rightarrow> 32 word outcome" where
  "YQLValueWithPB_float_value this = float_value this"

definition YQLValueWithPB_double_value :: "YQLValuePB \<Rightarrow> 64 word outcome" where
  "YQLValueWithPB_double_value this = double_value this"

definition YQLValueWithPB_bool_value :: "YQLValuePB \<Rightarrow> bool outcome" where
  "YQLValueWithPB_bool_value this = bool_value this"

definition YQLValueWithPB_string_value :: "YQLValuePB \<Rightarrow> string outcome" where
  "YQLValueWithPB_string_value this = string_value this"

definition YQLValueWithPB_timestamp_value :: "YQLValuePB \<Rightarrow> 64 word outcome" where
  "YQLValueWithPB_timestamp_value this = timestamp_value this"

definition YQLValueWithPB_set_int8_value :: "8 word \<Rightarrow> YQLValuePB \<Rightarrow> YQLValuePB" where
  "YQLValueWithPB_set_int8_value val this = set_int8_value val this"

definition YQLValueWithPB_set_int16_value :: "16 word \<Rightarrow> YQLValuePB \<Rightarrow> YQLValuePB" where
  "YQLValueWithPB_set_int16_value val this = set_int16_value val this"

definition YQLValueWithPB_set_int32_value :: "32 word \<Rightarrow> YQLValuePB \<Rightarrow> YQLValuePB" where
  "YQLValueWithPB_set_int32_value val this = set_int32_value val this"

definition YQLValueWithPB_set_int64_value :: "64 word \<Rightarrow> YQLValuePB \<Rightarrow> YQLValuePB" where
  "YQLValueWithPB_set_int64_value val this = set_int64_value val this"

definition YQLValueWithPB_set_float_value :: "32 word \<Rightarrow> YQLValuePB \<Rightarrow> YQLValuePB" where
  "YQLValueWithPB_set_float_value val this = set_float_value val this"

definition YQLValueWithPB_set_double_value :: "64 word \<Rightarrow> YQLValuePB \<Rightarrow> YQLValuePB" where
  "YQLValueWithPB_set_double_value val this = set_double_value val this"

definition YQLValueWithPB_set_bool_value :: "bool \<Rightarrow> YQLValuePB \<Rightarrow> YQLValuePB" where
  "YQLValueWithPB_set_bool_value val this = set_bool_value val this"

definition YQLValueWithPB_set_string_value :: "string \<Rightarrow> YQLValuePB \<Rightarrow> YQLValuePB" where
  "YQLValueWithPB_set_string_value val this = set_string_value val this"

definition YQLValueWithPB_set_timestamp_value :: "64 word \<Rightarrow> YQLValuePB \<Rightarrow> YQLValuePB" where
  "YQLValueWithPB_set_timestamp_value val this = set_timestamp_value val this"

text \<open>The comparison methods that \<^verbatim>\<open>YQLValue\<close> itself provides, over the virtual
  interface.\<close>

definition YQLValue_EitherIsNull :: "YQLValuePB \<Rightarrow> YQLValuePB \<Rightarrow> bool" where
  "YQLValue_EitherIsNull this other = (YQLValueWithPB_IsNull this \<or> YQLValueWithPB_IsNull other)"

definition YQLValue_BothNotNull :: "YQLValuePB \<Rightarrow> YQLValuePB \<Rightarrow> bool" where
  "YQLValue_BothNotNull this other =
     (\<not> YQLValueWithPB_IsNull this \<and> \<not> YQLValueWithPB_IsNull other)"

definition YQLValue_Comparable :: "YQLValuePB \<Rightarrow> YQLValuePB \<Rightarrow> bool" where
  "YQLValue_Comparable this other =
     (YQLValueWithPB_type this = YQLValueWithPB_type other \<or> YQLValue_EitherIsNull this other)"

text \<open>Both operands of a comparison are read through their getters, each of which can
  abort.\<close>

definition compare_with ::
  "('a \<Rightarrow> 'a \<Rightarrow> int) \<Rightarrow> 'a outcome \<Rightarrow> 'a outcome \<Rightarrow> int outcome" where
  "compare_with cmp a b = obind a (\<lambda>x. obind b (\<lambda>y. Done (cmp x y)))"

text \<open>\<^verbatim>\<open>YQLValue::CompareTo(const YQLValue& other) const\<close>.\<close>

definition YQLValue_CompareTo :: "YQLValuePB \<Rightarrow> YQLValuePB \<Rightarrow> int outcome" where
  "YQLValue_CompareTo this other =
     (if YQLValueWithPB_type this \<noteq> YQLValueWithPB_type other then Fatal
      else if YQLValueWithPB_IsNull this then Fatal
      else if YQLValueWithPB_IsNull other then Fatal
      else case YQLValueWithPB_type this of
        INT8 \<Rightarrow> compare_with (GenericCompare word_sless)
                  (YQLValueWithPB_int8_value this) (YQLValueWithPB_int8_value other)
      | INT16 \<Rightarrow> compare_with (GenericCompare word_sless)
                  (YQLValueWithPB_int16_value this) (YQLValueWithPB_int16_value other)
      | INT32 \<Rightarrow> compare_with (GenericCompare word_sless)
                  (YQLValueWithPB_int32_value this) (YQLValueWithPB_int32_value other)
      | INT64 \<Rightarrow> compare_with (GenericCompare word_sless)
                  (YQLValueWithPB_int64_value this) (YQLValueWithPB_int64_value other)
      | FLOAT \<Rightarrow> compare_with (GenericCompare float32_less)
                  (YQLValueWithPB_float_value this) (YQLValueWithPB_float_value other)
      | DOUBLE \<Rightarrow> compare_with (GenericCompare float64_less)
                  (YQLValueWithPB_double_value this) (YQLValueWithPB_double_value other)
      | STRING \<Rightarrow> compare_with string_compare
                  (YQLValueWithPB_string_value this) (YQLValueWithPB_string_value other)
      | BOOL \<Rightarrow> Fatal
      | TIMESTAMP \<Rightarrow> compare_with (GenericCompare word_sless)
                  (YQLValueWithPB_timestamp_value this) (YQLValueWithPB_timestamp_value other)
      | UINT8 \<Rightarrow> Fatal
      | UINT16 \<Rightarrow> Fatal
      | UINT32 \<Rightarrow> Fatal
      | UINT64 \<Rightarrow> Fatal
      | BINARY \<Rightarrow> Fatal
      | UNKNOWN_DATA \<Rightarrow> Fatal)"

text \<open>The operators of \<^verbatim>\<open>YQLValue\<close>: \<^verbatim>\<open>BothNotNull(v) && CompareTo(v) op 0\<close>.\<close>

definition YQLValue_op :: "YQLValuePB \<Rightarrow> YQLValuePB \<Rightarrow> (int \<Rightarrow> bool) \<Rightarrow> bool outcome" where
  "YQLValue_op this v op =
     (if \<not> YQLValue_BothNotNull this v then Done False
      else obind (YQLValue_CompareTo this v) (\<lambda>c. Done (op c)))"

definition YQLValue_less :: "YQLValuePB \<Rightarrow> YQLValuePB \<Rightarrow> bool outcome" where
  "YQLValue_less this v = YQLValue_op this v (\<lambda>c. c < 0)"

definition YQLValue_greater :: "YQLValuePB \<Rightarrow> YQLValuePB \<Rightarrow> bool outcome" where
  "YQLValue_greater this v = YQLValue_op this v (\<lambda>c. c > 0)"

definition YQLValue_less_eq :: "YQLValuePB \<Rightarrow> YQLValuePB \<Rightarrow> bool outcome" where
  "YQLValue_less_eq this v = YQLValue_op this v (\<lambda>c. c \<le> 0)"

definition YQLValue_greater_eq :: "YQLValuePB \<Rightarrow> YQLValuePB \<Rightarrow> bool outcome" where
  "YQLValue_greater_eq this v = YQLValue_op this v (\<lambda>c. c \<ge> 0)"

definition YQLValue_equal :: "YQLValuePB \<Rightarrow> YQLValuePB \<Rightarrow> bool outcome" where
  "YQLValue_equal this v = YQLValue_op this v (\<lambda>c. c = 0)"

definition YQLValue_not_equal :: "YQLValuePB \<Rightarrow> YQLValuePB \<Rightarrow> bool outcome" where
  "YQLValue_not_equal this v = YQLValue_op this v (\<lambda>c. c \<noteq> 0)"

text \<open>\<^verbatim>\<open>YQLValue::Serialize(YQLClient client, faststring* buffer) const\<close>.\<close>

definition YQLValue_Serialize ::
  "DateTime \<Rightarrow> YQLValuePB \<Rightarrow> YQLClient \<Rightarrow> byte list \<Rightarrow> byte list outcome" where
  "YQLValue_Serialize dt this client buffer =
     (if client \<noteq> YQL_CLIENT_CQL then Fatal
      else if YQLValueWithPB_IsNull this then Done (CQLEncodeLength (- 1) buffer)
      else case YQLValueWithPB_type this of
        INT8 \<Rightarrow>
          obind (YQLValueWithPB_int8_value this) (\<lambda>x. Done (CQLEncodeNum Store8 x buffer))
      | INT16 \<Rightarrow>
          obind (YQLValueWithPB_int16_value this) (\<lambda>x. Done (CQLEncodeNum Store16 x buffer))
      | INT32 \<Rightarrow>
          obind (YQLValueWithPB_int32_value this) (\<lambda>x. Done (CQLEncodeNum Store32 x buffer))
      | INT64 \<Rightarrow>
          obind (YQLValueWithPB_int64_value this) (\<lambda>x. Done (CQLEncodeNum Store64 x buffer))
      | FLOAT \<Rightarrow>
          obind (YQLValueWithPB_float_value this) (\<lambda>x. Done (CQLEncodeFloat Store32 x buffer))
      | DOUBLE \<Rightarrow>
          obind (YQLValueWithPB_double_value this) (\<lambda>x. Done (CQLEncodeFloat Store64 x buffer))
      | STRING \<Rightarrow>
          obind (YQLValueWithPB_string_value this) (\<lambda>x. Done (CQLEncodeBytes x buffer))
      | BOOL \<Rightarrow>
          obind (YQLValueWithPB_bool_value this)
            (\<lambda>x. Done (CQLEncodeNum Store8 (if x then 1 else 0) buffer))
      | TIMESTAMP \<Rightarrow>
          obind (YQLValueWithPB_timestamp_value this)
            (\<lambda>x. Done (CQLEncodeNum Store64
                         (AdjustPrecision x (internal_precision dt) (input_precision dt))
                         buffer))
      | UINT8 \<Rightarrow> Fatal
      | UINT16 \<Rightarrow> Fatal
      | UINT32 \<Rightarrow> Fatal
      | UINT64 \<Rightarrow> Fatal
      | BINARY \<Rightarrow> Fatal
      | UNKNOWN_DATA \<Rightarrow> Fatal)"

text \<open>The member templates \<^verbatim>\<open>CQLDeserializeNum\<close> and \<^verbatim>\<open>CQLDeserializeFloat\<close>, whose
  setter is a virtual method.\<close>

definition YQLValue_CQLDeserializeNum ::
  "YQLValuePB \<Rightarrow> nat \<Rightarrow> nat \<Rightarrow> (byte list \<Rightarrow> 'a) \<Rightarrow> ('a \<Rightarrow> YQLValuePB \<Rightarrow> YQLValuePB)
     \<Rightarrow> byte list \<Rightarrow> Status \<times> YQLValuePB \<times> byte list" where
  "YQLValue_CQLDeserializeNum this sz len converter setter data =
     (case CQLDecodeNum sz len converter data of
        Inl s \<Rightarrow> (s, this, data)
      | Inr (val, data') \<Rightarrow> (OK, setter val this, data'))"

definition YQLValue_CQLDeserializeFloat ::
  "YQLValuePB \<Rightarrow> nat \<Rightarrow> nat \<Rightarrow> (byte list \<Rightarrow> 'a) \<Rightarrow> ('a \<Rightarrow> YQLValuePB \<Rightarrow> YQLValuePB)
     \<Rightarrow> byte list \<Rightarrow> Status \<times> YQLValuePB \<times> byte list" where
  "YQLValue_CQLDeserializeFloat this sz len converter setter data =
     (case CQLDecodeFloat sz len converter data of
        Inl s \<Rightarrow> (s, this, data)
      | Inr (val, data') \<Rightarrow> (OK, setter val this, data'))"

definition YQLValue_Deserialize_switch ::
  "DateTime \<Rightarrow> YQLValuePB \<Rightarrow> DataType \<Rightarrow> 32 word \<Rightarrow> byte list
     \<Rightarrow> (Status \<times> YQLValuePB \<times> byte list) outcome" where
  "YQLValue_Deserialize_switch dt this type len data =
     (case type of
        INT8 \<Rightarrow>
          Done (YQLValue_CQLDeserializeNum this 1 (size_t_of_int32 len) Load8
                  YQLValueWithPB_set_int8_value data)
      | INT16 \<Rightarrow>
          Done (YQLValue_CQLDeserializeNum this 2 (size_t_of_int32 len) Load16
                  YQLValueWithPB_set_int16_value data)
      | INT32 \<Rightarrow>
          Done (YQLValue_CQLDeserializeNum this 4 (size_t_of_int32 len) Load32
                  YQLValueWithPB_set_int32_value data)
      | INT64 \<Rightarrow>
          Done (YQLValue_CQLDeserializeNum this 8 (size_t_of_int32 len) Load64
                  YQLValueWithPB_set_int64_value data)
      | FLOAT \<Rightarrow>
          Done (YQLValue_CQLDeserializeFloat this 4 (size_t_of_int32 len) Load32
                  YQLValueWithPB_set_float_value data)
      | DOUBLE \<Rightarrow>
          Done (YQLValue_CQLDeserializeFloat this 8 (size_t_of_int32 len) Load64
                  YQLValueWithPB_set_double_value data)
      | STRING \<Rightarrow>
          (case CQLDecodeBytes (size_t_of_int32 len) data of
             Inl s \<Rightarrow> Done (s, this, data)
           | Inr (val, data') \<Rightarrow> Done (OK, YQLValueWithPB_set_string_value val this, data'))
      | BOOL \<Rightarrow>
          (case CQLDecodeNum 1 (size_t_of_int32 len) Load8 data of
             Inl s \<Rightarrow> Done (s, this, data)
           | Inr (val, data') \<Rightarrow>
               Done (OK, YQLValueWithPB_set_bool_value (val \<noteq> 0) this, data'))
      | TIMESTAMP \<Rightarrow>
          (case CQLDecodeNum 8 (size_t_of_int32 len) Load64 data of
             Inl s \<Rightarrow> Done (s, this, data)
           | Inr (val, data') \<Rightarrow>
               Done (OK,
                     YQLValueWithPB_set_timestamp_value
                       (AdjustPrecision val (input_precision dt) (internal_precision dt)) this,
                     data'))
      | UINT8 \<Rightarrow> Fatal
      | UINT16 \<Rightarrow> Fatal
      | UINT32 \<Rightarrow> Fatal
      | UINT64 \<Rightarrow> Fatal
      | BINARY \<Rightarrow> Fatal
      | UNKNOWN_DATA \<Rightarrow> Fatal)"

text \<open>\<^verbatim>\<open>YQLValue::Deserialize(DataType type, YQLClient client, Slice* data)\<close>.\<close>

definition YQLValue_Deserialize ::
  "DateTime \<Rightarrow> YQLValuePB \<Rightarrow> DataType \<Rightarrow> YQLClient \<Rightarrow> byte list
     \<Rightarrow> (Status \<times> YQLValuePB \<times> byte list) outcome" where
  "YQLValue_Deserialize dt this type client data =
     (if client \<noteq> YQL_CLIENT_CQL then Fatal
      else case CQLDecodeNum 4 4 Load32 data of
        Inl s \<Rightarrow> Done (s, this, data)
      | Inr (len, data') \<Rightarrow>
          if len = - 1 then obind (YQLValueWithPB_SetNull this) (\<lambda>v'. Done (OK, v', data'))
          else YQLValue_Deserialize_switch dt this type len data')"

text \<open>\<^verbatim>\<open>YQLValue::ToString() const\<close>; an \<^verbatim>\<open>int8_t\<close> or \<^verbatim>\<open>int16_t\<close> is promoted to
  \<^verbatim>\<open>int\<close> for \<^verbatim>\<open>std::to_string\<close>.\<close>

definition YQLValue_ToString :: "Formatters \<Rightarrow> YQLValuePB \<Rightarrow> string outcome" where
  "YQLValue_ToString fm this =
     (let s = DataType_Name (YQLValueWithPB_type this) @ '':'' in
      if YQLValueWithPB_IsNull this then Done (s @ ''null'')
      else case YQLValueWithPB_type this of
        INT8 \<Rightarrow> obind (YQLValueWithPB_int8_value this) (\<lambda>x. Done (s @ to_string (sint x)))
      | INT16 \<Rightarrow> obind (YQLValueWithPB_int16_value this) (\<lambda>x. Done (s @ to_string (sint x)))
      | INT32 \<Rightarrow> obind (YQLValueWithPB_int32_value this) (\<lambda>x. Done (s @ to_string (sint x)))
      | INT64 \<Rightarrow> obind (YQLValueWithPB_int64_value this) (\<lambda>x. Done (s @ to_string (sint x)))
      | FLOAT \<Rightarrow>
          obind (YQLValueWithPB_float_value this) (\<lambda>x. Done (s @ to_string_float fm x))
      | DOUBLE \<Rightarrow>
          obind (YQLValueWithPB_double_value this) (\<lambda>x. Done (s @ to_string_double fm x))
      | STRING \<Rightarrow>
          obind (YQLValueWithPB_string_value this) (\<lambda>x. Done (s @ FormatBytesAsStr fm x))
      | TIMESTAMP \<Rightarrow>
          obind (YQLValueWithPB_timestamp_value this) (\<lambda>x. Done (s @ ToFormattedString fm x))
      | BOOL \<Rightarrow>
          obind (YQLValueWithPB_bool_value this)
            (\<lambda>x. Done (s @ (if x then ''true'' else ''false'')))
      | UINT8 \<Rightarrow> Fatal
      | UINT16 \<Rightarrow> Fatal
      | UINT32 \<Rightarrow> Fatal
      | UINT64 \<Rightarrow> Fatal
      | BINARY \<Rightarrow> Fatal
      | UNKNOWN_DATA \<Rightarrow> Fatal)"

section \<open>Nullness\<close>

lemma IsNull_iff: "IsNull v \<longleftrightarrow> v = NotSet"
  by (cases v) (simp_all add: IsNull_def)

lemma SetNull_Done: "SetNull v = Done NotSet"
  by (cases v) (simp_all add: SetNull_def)

text \<open>
  Claim C10. \<^verbatim>\<open>SetNull\<close> returns (it does not abort) whatever field was active, the
  value it leaves is null, and on an already null value it returns that value unchanged;
  applying it a second time changes nothing. The same holds for the method of the
  wrapper, which calls the static function.
\<close>

theorem SetNull_clears_and_is_idempotent:
  "(\<exists>v'. SetNull v = Done v' \<and> IsNull v' \<and> value_case v' = VALUE_NOT_SET
        \<and> SetNull v' = Done v')
   \<and> SetNull NotSet = Done NotSet
   \<and> obind (SetNull v) SetNull = SetNull v
   \<and> (\<exists>v'. YQLValueWithPB_SetNull v = Done v' \<and> YQLValueWithPB_IsNull v'
        \<and> YQLValueWithPB_SetNull v' = Done v')"
  by (simp add: SetNull_Done IsNull_def obind_def YQLValueWithPB_SetNull_def
      YQLValueWithPB_IsNull_def)

section \<open>Comparison\<close>

lemmas getter_defs =
  int8_value_def int16_value_def int32_value_def int64_value_def float_value_def
  double_value_def bool_value_def string_value_def timestamp_value_def

lemmas pb_getter_defs =
  pb_int8_value_def pb_int16_value_def pb_int32_value_def pb_int64_value_def
  pb_float_value_def pb_double_value_def pb_bool_value_def pb_string_value_def
  pb_timestamp_value_def

lemmas override_defs =
  YQLValueWithPB_type_def YQLValueWithPB_IsNull_def YQLValueWithPB_SetNull_def
  YQLValueWithPB_int8_value_def YQLValueWithPB_int16_value_def
  YQLValueWithPB_int32_value_def YQLValueWithPB_int64_value_def
  YQLValueWithPB_float_value_def YQLValueWithPB_double_value_def
  YQLValueWithPB_bool_value_def YQLValueWithPB_string_value_def
  YQLValueWithPB_timestamp_value_def

lemmas PB_op_defs =
  PB_less_def PB_greater_def PB_less_eq_def PB_greater_eq_def PB_equal_def PB_not_equal_def

lemmas YQLValue_op_defs =
  YQLValue_less_def YQLValue_greater_def YQLValue_less_eq_def YQLValue_greater_eq_def
  YQLValue_equal_def YQLValue_not_equal_def

lemma YQL_COMPARE_null: "IsNull a \<or> IsNull b \<Longrightarrow> YQL_COMPARE a b op = Done False"
  by (auto simp add: YQL_COMPARE_def BothNotNull_def)

lemma YQLValue_op_null: "IsNull a \<or> IsNull b \<Longrightarrow> YQLValue_op a b op = Done False"
  by (auto simp add: YQLValue_op_def YQLValue_BothNotNull_def YQLValueWithPB_IsNull_def)

text \<open>
  Claim C2. When at least one operand is null, each of the six relational operators
  returns false, \<^verbatim>\<open>!=\<close> included: the operators of the record and those of the wrapper.
\<close>

theorem relational_operators_false_on_null:
  assumes "IsNull a \<or> IsNull b"
  shows "PB_less a b = Done False \<and> PB_greater a b = Done False
       \<and> PB_less_eq a b = Done False \<and> PB_greater_eq a b = Done False
       \<and> PB_equal a b = Done False \<and> PB_not_equal a b = Done False
       \<and> YQLValue_less a b = Done False \<and> YQLValue_greater a b = Done False
       \<and> YQLValue_less_eq a b = Done False \<and> YQLValue_greater_eq a b = Done False
       \<and> YQLValue_equal a b = Done False \<and> YQLValue_not_equal a b = Done False"
  using assms by (simp add: PB_op_defs YQLValue_op_defs YQL_COMPARE_null YQLValue_op_null)

theorem relational_operators_false_on_null_witness:
  "IsNull NotSet
   \<and> PB_not_equal NotSet (Int32Field 5) = Done False
   \<and> PB_not_equal (StringField ''a'') NotSet = Done False
   \<and> PB_equal NotSet NotSet = Done False
   \<and> YQLValue_not_equal NotSet (Int32Field 5) = Done False
   \<and> YQLValue_less (BoolField True) NotSet = Done False"
  using relational_operators_false_on_null [of NotSet "Int32Field 5"]
    relational_operators_false_on_null [of "StringField ''a''" NotSet]
    relational_operators_false_on_null [of NotSet NotSet]
    relational_operators_false_on_null [of "BoolField True" NotSet]
  by (simp add: IsNull_def)

text \<open>
  Claim C7. Comparing two non-null Bool values aborts: \<^verbatim>\<open>CompareTo\<close> reaches
  \<^verbatim>\<open>LOG(FATAL)\<close> in its \<^verbatim>\<open>BOOL\<close> case and returns neither a result nor a status, in the
  static function and in the method, and so do the operators built on them.
\<close>

theorem CompareTo_Bool_aborts:
  "CompareTo (BoolField x) (BoolField y) = Fatal
   \<and> YQLValue_CompareTo (BoolField x) (BoolField y) = Fatal
   \<and> PB_equal (BoolField x) (BoolField y) = Fatal
   \<and> YQLValue_equal (BoolField x) (BoolField y) = Fatal"
  by (simp add: CompareTo_def YQLValue_CompareTo_def Comparable_def BothNotNull_def
      IsNull_def override_defs type_PB_def PB_equal_def YQLValue_equal_def YQL_COMPARE_def
      YQLValue_op_def YQLValue_BothNotNull_def obind_def)

subsection \<open>The range of \<open>CompareTo\<close>\<close>

lemma string_compare_Nil1: "string_compare [] t = S_compare 0 (length t)"
  by (simp add: string_compare_def)

lemma string_compare_Nil2: "string_compare s [] = S_compare (length s) 0"
  by (cases s) (simp_all add: string_compare_def)

lemma S_compare_Suc: "S_compare (Suc m) (Suc n) = S_compare m n"
  by (simp add: S_compare_def)

lemma string_compare_Cons:
  "string_compare (x # xs) (y # ys) =
     (if x = y then string_compare xs ys else int (of_char x) - int (of_char y))"
  by (auto simp add: string_compare_def S_compare_Suc Let_def)

lemma S_compare_sign:
  "(S_compare m n < 0 \<longleftrightarrow> m < n) \<and> (S_compare m n = 0 \<longleftrightarrow> m = n)
   \<and> (0 < S_compare m n \<longleftrightarrow> n < m)"
  by (auto simp add: S_compare_def Let_def)

lemma of_char_less_cases:
  "x \<noteq> y \<Longrightarrow> \<not> (of_char y :: nat) < of_char x \<Longrightarrow> (of_char x :: nat) < of_char y"
  using of_char_eq_iff [of x y, where ?'a = nat] by linarith

text \<open>The sign of \<open>string_compare\<close> is the byte-lexicographic order.\<close>

lemma string_compare_zero: "string_compare s t = 0 \<longleftrightarrow> s = t"
proof (induction s arbitrary: t)
  case Nil
  show ?case
    using S_compare_sign [of 0 "length t"] by (auto simp add: string_compare_Nil1)
next
  case (Cons x xs)
  show ?case
  proof (cases t)
    case Nil
    then show ?thesis
      using S_compare_sign [of "length (x # xs)" 0] by (auto simp add: string_compare_Nil2)
  next
    case (Cons y ys)
    then show ?thesis
      using Cons.IH [of ys] by (auto simp add: string_compare_Cons)
  qed
qed

lemma string_compare_negative:
  "string_compare s t < 0 \<longleftrightarrow> ord_class.lexordp (map of_char s :: nat list) (map of_char t)"
proof (induction s arbitrary: t)
  case Nil
  show ?case
    using S_compare_sign [of 0 "length t"] by (auto simp add: string_compare_Nil1)
next
  case (Cons x xs)
  show ?case
  proof (cases t)
    case Nil
    then show ?thesis
      using S_compare_sign [of "length (x # xs)" 0] by (auto simp add: string_compare_Nil2)
  next
    case (Cons y ys)
    then show ?thesis
      using Cons.IH [of ys]
      by (auto simp add: string_compare_Cons dest: of_char_less_cases)
  qed
qed

lemma string_compare_positive:
  "0 < string_compare s t \<longleftrightarrow> ord_class.lexordp (map of_char t :: nat list) (map of_char s)"
proof (induction s arbitrary: t)
  case Nil
  show ?case
    using S_compare_sign [of 0 "length t"] by (auto simp add: string_compare_Nil1)
next
  case (Cons x xs)
  show ?case
  proof (cases t)
    case Nil
    then show ?thesis
      using S_compare_sign [of "length (x # xs)" 0] by (auto simp add: string_compare_Nil2)
  next
    case (Cons y ys)
    then show ?thesis
      using Cons.IH [of ys]
      by (auto simp add: string_compare_Cons dest: of_char_less_cases)
  qed
qed

lemma GenericCompare_range: "Done (GenericCompare lt x y) \<in> {Done (- 1), Done 0, Done 1}"
  by (simp add: GenericCompare_def)

lemma CompareTo_numeric_range:
  assumes "value_case a = value_case b" and "value_case a \<noteq> VALUE_NOT_SET"
    and "value_case a \<noteq> kBoolValue" and "value_case a \<noteq> kStringValue"
  shows "CompareTo a b \<in> {Done (- 1), Done 0, Done 1}"
  using assms
  by (cases a; cases b)
    (simp_all add: CompareTo_def Comparable_def BothNotNull_def IsNull_def
      GenericCompare_def)

lemma YQLValue_CompareTo_numeric_range:
  assumes "value_case a = value_case b" and "value_case a \<noteq> VALUE_NOT_SET"
    and "value_case a \<noteq> kBoolValue" and "value_case a \<noteq> kStringValue"
  shows "YQLValue_CompareTo a b \<in> {Done (- 1), Done 0, Done 1}"
  using assms
  by (cases a; cases b)
    (simp_all add: YQLValue_CompareTo_def override_defs type_PB_def IsNull_def getter_defs
      compare_with_def obind_def GenericCompare_def)

lemma CompareTo_String:
  "CompareTo (StringField s) (StringField t) = Done (string_compare s t)"
  by (simp add: CompareTo_def Comparable_def BothNotNull_def IsNull_def pb_string_value_def)

lemma YQLValue_CompareTo_String:
  "YQLValue_CompareTo (StringField s) (StringField t) = Done (string_compare s t)"
  by (simp add: YQLValue_CompareTo_def override_defs type_PB_def IsNull_def string_value_def
      compare_with_def obind_def)

text \<open>
  Claim C3, as stated, fails for String values: \<^verbatim>\<open>CompareTo\<close> returns what
  \<^verbatim>\<open>std::string::compare\<close> returns, which is not confined to \<open>-1\<close>, \<open>0\<close>, \<open>1\<close>. For
  \<^verbatim>\<open>"a"\<close> against \<^verbatim>\<open>"abc"\<close> the common prefix is equal and the result is the
  difference of the lengths, \<open>-2\<close>.
\<close>

theorem CompareTo_String_outside_range:
  "CompareTo (StringField ''a'') (StringField ''abc'') = Done (- 2)
   \<and> CompareTo (StringField ''a'') (StringField ''abc'') \<notin> {Done (- 1), Done 0, Done 1}"
  by (simp add: CompareTo_String string_compare_def S_compare_def)

text \<open>
  Claim C3, amended. For two non-null values of the same kind, the kind being neither
  Bool nor String (so Int8, Int16, Int32, Int64, Float, Double or Timestamp),
  \<^verbatim>\<open>CompareTo\<close> returns and its result is \<open>-1\<close>, \<open>0\<close> or \<open>1\<close>. For two String values it
  returns the result of \<^verbatim>\<open>std::string::compare\<close>: negative, zero or positive as the
  left bytes are lexicographically below, equal to or above the right ones. The two
  examples of the claim hold: Int32 3 against 5 gives \<open>-1\<close>, and String \<^verbatim>\<open>"b"\<close> against
  \<^verbatim>\<open>"a"\<close> gives \<open>1\<close>.
\<close>

theorem CompareTo_result_range:
  assumes "value_case a = value_case b" and "value_case a \<noteq> VALUE_NOT_SET"
    and "value_case a \<noteq> kBoolValue" and "value_case a \<noteq> kStringValue"
  shows "CompareTo a b \<in> {Done (- 1), Done 0, Done 1}
       \<and> YQLValue_CompareTo a b \<in> {Done (- 1), Done 0, Done 1}
       \<and> CompareTo (StringField s) (StringField t) = Done (string_compare s t)
       \<and> YQLValue_CompareTo (StringField s) (StringField t) = Done (string_compare s t)
       \<and> (string_compare s t < 0 \<longleftrightarrow>
            ord_class.lexordp (map of_char s :: nat list) (map of_char t))
       \<and> (string_compare s t = 0 \<longleftrightarrow> s = t)
       \<and> (0 < string_compare s t \<longleftrightarrow>
            ord_class.lexordp (map of_char t :: nat list) (map of_char s))
       \<and> CompareTo (Int32Field 3) (Int32Field 5) = Done (- 1)
       \<and> CompareTo (StringField ''b'') (StringField ''a'') = Done 1"
proof -
  have "CompareTo (Int32Field 3) (Int32Field 5) = Done (- 1)"
    by (simp add: CompareTo_def Comparable_def BothNotNull_def IsNull_def pb_int32_value_def
        GenericCompare_def word_sless_alt)
  moreover have "CompareTo (StringField ''b'') (StringField ''a'') = Done 1"
    by (simp add: CompareTo_String string_compare_def)
  ultimately show ?thesis
    using CompareTo_numeric_range [OF assms] YQLValue_CompareTo_numeric_range [OF assms]
    by (simp only: CompareTo_String YQLValue_CompareTo_String string_compare_zero
        string_compare_negative string_compare_positive simp_thms)
qed

theorem CompareTo_result_range_witness:
  "value_case (Int64Field 7) = value_case (Int64Field (- 2))
   \<and> value_case (Int64Field 7) \<noteq> VALUE_NOT_SET
   \<and> CompareTo (Int64Field 7) (Int64Field (- 2)) = Done 1
   \<and> YQLValue_CompareTo (Int64Field 7) (Int64Field (- 2)) \<in> {Done (- 1), Done 0, Done 1}
   \<and> CompareTo (StringField ''abc'') (StringField ''a'') = Done 2"
proof -
  have "CompareTo (Int64Field 7) (Int64Field (- 2)) = Done 1"
    by (simp add: CompareTo_def Comparable_def BothNotNull_def IsNull_def pb_int64_value_def
        GenericCompare_def word_sless_alt)
  moreover have "string_compare ''abc'' ''a'' = 2"
    by (simp add: string_compare_def S_compare_def)
  ultimately show ?thesis
    using CompareTo_result_range [of "Int64Field 7" "Int64Field (- 2)" "''abc''" "''a''"]
    by simp
qed

section \<open>The wire format\<close>

subsection \<open>Byte order\<close>

lemma byte_index_cases:
  assumes "n < 64"
  obtains k m :: nat where "n = 8 * k + m" and "m < 8" and "k < 8"
proof -
  have "n = 8 * (n div 8) + n mod 8" and "n mod 8 < 8" and "n div 8 < 8"
    using assms by auto
  then show thesis using that by blast
qed

lemmas bit_byte_simps =
  bit_or_iff bit_push_bit_iff bit_ucast_iff bit_drop_bit_eq bit_imp_le_length

lemma Load8_Store8: "Load8 (Store8 w @ r) = w"
  by (simp add: Load8_def Store8_def)

lemma Load16_Store16: "Load16 (Store16 w @ r) = w"
proof (rule bit_word_eqI)
  fix n :: nat
  assume "n < LENGTH(16)"
  then obtain k m where n: "n = 8 * k + m" and m: "m < 8" and k: "k < 2"
    using byte_index_cases [of n] by auto
  from k consider "k = 0" | "k = 1"
    by linarith
  then show "bit (Load16 (Store16 w @ r)) n = bit w n"
    using m unfolding n
    by cases (simp_all add: Store16_def Load16_def bit_byte_simps)
qed

lemma Load32_Store32: "Load32 (Store32 w @ r) = w"
proof (rule bit_word_eqI)
  fix n :: nat
  assume "n < LENGTH(32)"
  then obtain k m where n: "n = 8 * k + m" and m: "m < 8" and k: "k < 4"
    using byte_index_cases [of n] by auto
  from k consider "k = 0" | "k = 1" | "k = 2" | "k = 3"
    by linarith
  then show "bit (Load32 (Store32 w @ r)) n = bit w n"
    using m unfolding n
    by cases (simp_all add: Store32_def Load32_def bit_byte_simps)
qed

lemma Load64_Store64: "Load64 (Store64 w @ r) = w"
proof (rule bit_word_eqI)
  fix n :: nat
  assume "n < LENGTH(64)"
  then obtain k m where n: "n = 8 * k + m" and m: "m < 8" and k: "k < 8"
    using byte_index_cases [of n] by auto
  from k consider "k = 0" | "k = 1" | "k = 2" | "k = 3" | "k = 4" | "k = 5" | "k = 6" | "k = 7"
    by linarith
  then show "bit (Load64 (Store64 w @ r)) n = bit w n"
    using m unfolding n
    by cases (simp_all add: Store64_def Load64_def bit_byte_simps)
qed

lemma length_Store [simp]:
  "length (Store8 a) = 1" "length (Store16 b) = 2" "length (Store32 c) = 4"
  "length (Store64 d) = 8"
  by (simp_all add: Store8_def Store16_def Store32_def Store64_def)

lemma Store32_minus1: "Store32 (- 1) = [0xFF, 0xFF, 0xFF, 0xFF]"
  by code_simp

lemma Store32_small:
  "Store32 1 = [0, 0, 0, 1]" "Store32 2 = [0, 0, 0, 2]" "Store32 4 = [0, 0, 0, 4]"
  "Store32 8 = [0, 0, 0, 8]"
  by (simp_all add: Store32_def)

lemma Load32_minus1: "Load32 (0xFF # 0xFF # 0xFF # 0xFF # rest) = - 1"
  by (simp add: Load32_def)

lemma char_of_byte_of_char [simp]: "char_of_byte (byte_of_char c) = c"
proof -
  have "(of_char c :: nat) < 256"
    by simp
  then have "unat (of_nat (of_char c) :: byte) = of_char c"
    by (simp add: unat_of_nat)
  then show ?thesis
    by (simp add: char_of_byte_def byte_of_char_def)
qed

subsection \<open>What \<open>Serialize\<close> writes\<close>

lemmas encode_defs =
  CQLEncodeLength_def CQLEncodeNum_def CQLEncodeFloat_def CQLEncodeBytes_def

lemma Serialize_layout:
  "Serialize dt NotSet YQL_CLIENT_CQL buf = Done (buf @ Store32 (- 1))"
  "Serialize dt (Int8Field x8) YQL_CLIENT_CQL buf = Done (buf @ Store32 1 @ Store8 (ucast x8))"
  "Serialize dt (Int16Field x16) YQL_CLIENT_CQL buf =
     Done (buf @ Store32 2 @ Store16 (ucast x16))"
  "Serialize dt (Int32Field x32) YQL_CLIENT_CQL buf = Done (buf @ Store32 4 @ Store32 x32)"
  "Serialize dt (Int64Field x64) YQL_CLIENT_CQL buf = Done (buf @ Store32 8 @ Store64 x64)"
  "Serialize dt (FloatField f) YQL_CLIENT_CQL buf = Done (buf @ Store32 4 @ Store32 f)"
  "Serialize dt (DoubleField d) YQL_CLIENT_CQL buf = Done (buf @ Store32 8 @ Store64 d)"
  "Serialize dt (StringField str) YQL_CLIENT_CQL buf =
     Done (buf @ Store32 (of_nat (length str)) @ map byte_of_char str)"
  "Serialize dt (BoolField b) YQL_CLIENT_CQL buf =
     Done (buf @ Store32 1 @ Store8 (if b then 1 else 0))"
  "Serialize dt (TimestampField ts) YQL_CLIENT_CQL buf =
     Done (buf @ Store32 8
             @ Store64 (AdjustPrecision ts (internal_precision dt) (input_precision dt)))"
  by (simp_all add: Serialize_def IsNull_def pb_getter_defs encode_defs)

lemma YQLValue_Serialize_eq: "YQLValue_Serialize dt v client buf = Serialize dt v client buf"
  by (cases v)
    (simp_all add: YQLValue_Serialize_def Serialize_def override_defs type_PB_def IsNull_def
      getter_defs pb_getter_defs obind_def)

text \<open>
  Claim C5. The bytes that \<^verbatim>\<open>Serialize\<close> appends: Int32 \<open>-1\<close> gives
  \<^verbatim>\<open>00 00 00 04 FF FF FF FF\<close>, a null value \<^verbatim>\<open>FF FF FF FF\<close>, the String \<^verbatim>\<open>"ab"\<close>
  \<^verbatim>\<open>00 00 00 02 61 62\<close> and Bool true \<^verbatim>\<open>00 00 00 01 01\<close>, from the static function and
  from the method. For every kind the output is the buffer, then the 4 byte big-endian
  length, then the big-endian payload.
\<close>

theorem Serialize_wire_bytes:
  "Serialize dt (Int32Field (- 1)) YQL_CLIENT_CQL [] = Done [0, 0, 0, 4, 0xFF, 0xFF, 0xFF, 0xFF]
   \<and> Serialize dt NotSet YQL_CLIENT_CQL [] = Done [0xFF, 0xFF, 0xFF, 0xFF]
   \<and> Serialize dt (StringField ''ab'') YQL_CLIENT_CQL [] = Done [0, 0, 0, 2, 0x61, 0x62]
   \<and> Serialize dt (BoolField True) YQL_CLIENT_CQL [] = Done [0, 0, 0, 1, 1]
   \<and> YQLValue_Serialize dt (Int32Field (- 1)) YQL_CLIENT_CQL []
        = Done [0, 0, 0, 4, 0xFF, 0xFF, 0xFF, 0xFF]
   \<and> YQLValue_Serialize dt NotSet YQL_CLIENT_CQL [] = Done [0xFF, 0xFF, 0xFF, 0xFF]
   \<and> YQLValue_Serialize dt (StringField ''ab'') YQL_CLIENT_CQL [] = Done [0, 0, 0, 2, 0x61, 0x62]
   \<and> YQLValue_Serialize dt (BoolField True) YQL_CLIENT_CQL [] = Done [0, 0, 0, 1, 1]
   \<and> Serialize dt (Int8Field x8) YQL_CLIENT_CQL buf = Done (buf @ Store32 1 @ [ucast x8])
   \<and> Serialize dt (Int16Field x16) YQL_CLIENT_CQL buf
        = Done (buf @ Store32 2 @ Store16 (ucast x16))
   \<and> Serialize dt (Int32Field x32) YQL_CLIENT_CQL buf = Done (buf @ Store32 4 @ Store32 x32)
   \<and> Serialize dt (Int64Field x64) YQL_CLIENT_CQL buf = Done (buf @ Store32 8 @ Store64 x64)
   \<and> Serialize dt (FloatField f) YQL_CLIENT_CQL buf = Done (buf @ Store32 4 @ Store32 f)
   \<and> Serialize dt (DoubleField d) YQL_CLIENT_CQL buf = Done (buf @ Store32 8 @ Store64 d)
   \<and> Serialize dt (StringField str) YQL_CLIENT_CQL buf
        = Done (buf @ Store32 (of_nat (length str)) @ map byte_of_char str)
   \<and> Serialize dt (BoolField b) YQL_CLIENT_CQL buf
        = Done (buf @ Store32 1 @ [if b then 1 else 0])
   \<and> Serialize dt (TimestampField ts) YQL_CLIENT_CQL buf
        = Done (buf @ Store32 8
                  @ Store64 (AdjustPrecision ts (internal_precision dt) (input_precision dt)))
   \<and> Store16 h = [ucast (drop_bit 8 h), ucast h]
   \<and> Store32 w = [ucast (drop_bit 24 w), ucast (drop_bit 16 w), ucast (drop_bit 8 w), ucast w]"
proof -
  have "Store32 w = [ucast (drop_bit 24 w), ucast (drop_bit 16 w), ucast (drop_bit 8 w), ucast w]"
    by (simp add: Store32_def)
  moreover have "map byte_of_char ''ab'' = [0x61, 0x62]"
    by (simp add: byte_of_char_def)
  moreover have "Store16 h = [ucast (drop_bit 8 h), ucast h]"
    by (simp add: Store16_def)
  ultimately show ?thesis
    by (simp add: YQLValue_Serialize_eq Serialize_layout Store32_minus1 Store32_small Store8_def)
qed

subsection \<open>Decoding a null\<close>

lemma YQLValue_Deserialize_switch_eq:
  "YQLValue_Deserialize_switch dt v type len data = Deserialize_switch dt v type len data"
proof -
  have setters:
    "YQLValueWithPB_set_int8_value = set_int8_value"
    "YQLValueWithPB_set_int16_value = set_int16_value"
    "YQLValueWithPB_set_int32_value = set_int32_value"
    "YQLValueWithPB_set_int64_value = set_int64_value"
    "YQLValueWithPB_set_float_value = set_float_value"
    "YQLValueWithPB_set_double_value = set_double_value"
    "YQLValueWithPB_set_bool_value = set_bool_value"
    "YQLValueWithPB_set_string_value = set_string_value"
    "YQLValueWithPB_set_timestamp_value = set_timestamp_value"
    by (simp_all add: fun_eq_iff YQLValueWithPB_set_int8_value_def
        YQLValueWithPB_set_int16_value_def YQLValueWithPB_set_int32_value_def
        YQLValueWithPB_set_int64_value_def YQLValueWithPB_set_float_value_def
        YQLValueWithPB_set_double_value_def YQLValueWithPB_set_bool_value_def
        YQLValueWithPB_set_string_value_def YQLValueWithPB_set_timestamp_value_def)
  show ?thesis
    unfolding YQLValue_Deserialize_switch_def Deserialize_switch_def
      YQLValue_CQLDeserializeNum_def CQLDeserializeNum_def
      YQLValue_CQLDeserializeFloat_def CQLDeserializeFloat_def setters
    by (rule refl)
qed

lemma YQLValue_Deserialize_eq:
  "YQLValue_Deserialize dt v type client data = Deserialize dt v type client data"
  unfolding YQLValue_Deserialize_def Deserialize_def YQLValue_Deserialize_switch_eq
    YQLValueWithPB_SetNull_def
  by (rule refl)

lemma Deserialize_length:
  "Deserialize dt v type YQL_CLIENT_CQL (Store32 len @ rest) =
     (if len = - 1 then Done (OK, NotSet, rest) else Deserialize_switch dt v type len rest)"
  by (simp add: Deserialize_def CQLDecodeNum_def Load32_Store32 SetNull_Done obind_def)

text \<open>
  Claim C9. \<^verbatim>\<open>Deserialize\<close> reads the length before it looks at the declared type: on
  a buffer that starts with the length \<open>-1\<close> (\<^verbatim>\<open>FF FF FF FF\<close>) it sets the destination
  to null and returns \<^verbatim>\<open>OK\<close> with the slice advanced by four bytes, for every declared
  type, the unsupported ones included, in the static function and in the method.
\<close>

theorem Deserialize_null_for_every_type:
  "Deserialize dt v type YQL_CLIENT_CQL (0xFF # 0xFF # 0xFF # 0xFF # rest) = Done (OK, NotSet, rest)
   \<and> YQLValue_Deserialize dt v type YQL_CLIENT_CQL (0xFF # 0xFF # 0xFF # 0xFF # rest)
        = Done (OK, NotSet, rest)
   \<and> IsNull NotSet
   \<and> Deserialize dt v UINT8 YQL_CLIENT_CQL (Store32 (- 1) @ rest) = Done (OK, NotSet, rest)
   \<and> Deserialize dt v UNKNOWN_DATA YQL_CLIENT_CQL (Store32 (- 1) @ rest) = Done (OK, NotSet, rest)"
  using Deserialize_length [of dt v type "- 1" rest] Deserialize_length [of dt v UINT8 "- 1" rest]
    Deserialize_length [of dt v UNKNOWN_DATA "- 1" rest]
  by (simp add: YQLValue_Deserialize_eq Store32_minus1 IsNull_def)

subsection \<open>Decode errors\<close>

lemma Deserialize_error_unchanged:
  assumes "Deserialize dt v type client data = Done (st, v', data')" and "st \<noteq> OK"
  shows "v' = v"
  using assms
  by (auto simp add: Deserialize_def Deserialize_switch_def CQLDeserializeNum_def
      CQLDeserializeFloat_def SetNull_Done obind_def
      split: if_splits sum.splits prod.splits DataType.splits)

lemma Deserialize_truncated_length:
  "length data < 4 \<Longrightarrow> Deserialize dt v type YQL_CLIENT_CQL data = Done (NetworkError, v, data)"
  by (simp add: Deserialize_def CQLDecodeNum_def)

lemma Deserialize_fixed_width_error:
  assumes "(type, w) \<in> set [(INT8, 1), (INT16, 2), (INT32, 4), (INT64, 8), (FLOAT, 4),
      (DOUBLE, 8), (BOOL, 1), (TIMESTAMP, 8)]"
    and "len \<noteq> - 1"
    and "size_t_of_int32 len \<noteq> w \<or> length rest < w"
  shows "Deserialize dt v type YQL_CLIENT_CQL (Store32 len @ rest) = Done (NetworkError, v, rest)"
  using assms
  by (auto simp add: Deserialize_length Deserialize_switch_def CQLDeserializeNum_def
      CQLDeserializeFloat_def CQLDecodeFloat_def CQLDecodeNum_def)

lemma size_t_of_int32_small:
  "size_t_of_int32 1 = 1" "size_t_of_int32 2 = 2" "size_t_of_int32 4 = 4"
  "size_t_of_int32 8 = 8"
  by (simp_all add: size_t_of_int32_def)

text \<open>
  Claim C6. Let the declared type be a fixed-width kind of width \<open>w\<close>. When fewer than
  four bytes are left for the length, or when the length is not \<open>-1\<close> and either differs
  from \<open>w\<close> or fewer than \<open>w\<close> payload bytes remain, \<^verbatim>\<open>Deserialize\<close> returns (it does
  not abort) the error status and the destination is the value it was before the call.
  More generally, whenever \<^verbatim>\<open>Deserialize\<close> returns a status other than \<^verbatim>\<open>OK\<close> the
  destination is unchanged: no setter has run. The method behaves as the static function.
\<close>

theorem Deserialize_error_leaves_value:
  assumes "(type, w) \<in> set [(INT8, 1), (INT16, 2), (INT32, 4), (INT64, 8), (FLOAT, 4),
      (DOUBLE, 8), (BOOL, 1), (TIMESTAMP, 8)]"
  shows "(length data < 4 \<longrightarrow>
            Deserialize dt v type YQL_CLIENT_CQL data = Done (NetworkError, v, data))
       \<and> (len \<noteq> - 1 \<and> (size_t_of_int32 len \<noteq> w \<or> length rest < w) \<longrightarrow>
            Deserialize dt v type YQL_CLIENT_CQL (Store32 len @ rest) = Done (NetworkError, v, rest))
       \<and> (\<forall>client st v' data'.
            Deserialize dt v type client data = Done (st, v', data') \<and> st \<noteq> OK \<longrightarrow> v' = v)
       \<and> YQLValue_Deserialize dt v type client data = Deserialize dt v type client data"
  using Deserialize_truncated_length [of data dt v type]
    Deserialize_fixed_width_error [OF assms, of len rest dt v]
    Deserialize_error_unchanged [of dt v type _ data]
  by (simp add: YQLValue_Deserialize_eq) blast

theorem Deserialize_error_leaves_value_witness:
  "(INT32, 4) \<in> set [(INT8, 1), (INT16, 2), (INT32, 4), (INT64, 8), (FLOAT, 4),
      (DOUBLE, 8), (BOOL, 1), (TIMESTAMP, 8 :: nat)]
   \<and> Deserialize micros_millis (Int32Field 7) INT32 YQL_CLIENT_CQL [0, 0, 0, 4, 0xAB, 0xCD]
       = Done (NetworkError, Int32Field 7, [0xAB, 0xCD])
   \<and> Deserialize micros_millis (Int32Field 7) INT32 YQL_CLIENT_CQL [0, 0, 0, 2, 0xAB, 0xCD]
       = Done (NetworkError, Int32Field 7, [0xAB, 0xCD])
   \<and> Deserialize micros_millis (Int32Field 7) INT32 YQL_CLIENT_CQL [0, 0]
       = Done (NetworkError, Int32Field 7, [0, 0])
   \<and> YQLValue_Deserialize micros_millis (Int32Field 7) INT32 YQL_CLIENT_CQL [0, 0, 0, 4, 0xAB, 0xCD]
       = Done (NetworkError, Int32Field 7, [0xAB, 0xCD])"
  using
    Deserialize_error_leaves_value [of INT32 4 "[0, 0]" micros_millis "Int32Field 7" 4
      "[0xAB, 0xCD]" YQL_CLIENT_CQL]
    Deserialize_error_leaves_value [of INT32 4 "[0, 0, 0, 4, 0xAB, 0xCD]" micros_millis
      "Int32Field 7" 2 "[0xAB, 0xCD]" YQL_CLIENT_CQL]
  by (simp add: Store32_small size_t_of_int32_small)

subsection \<open>Precision conversion\<close>

lemma sdiv_exact:
  assumes "(k :: int) dvd a" and "0 \<le> k"
  shows "(a sdiv k) * k = a"
proof -
  from assms obtain m where a: "a = k * m"
    by (auto simp add: dvd_def)
  show ?thesis
  proof (cases "k = 0")
    case True
    then show ?thesis using a by simp
  next
    case False
    with assms have "0 < k" by simp
    then have "(k * m) sdiv k = m"
      by (simp add: signed_divide_int_def sgn_mult abs_mult mult_sgn_abs flip: mult.assoc)
    then show ?thesis using a by simp
  qed
qed

text \<open>Converting to a coarser or equal precision and back gives the count again when
  the count is a whole number of the coarser units. No product leaves the range of 64
  bits then, so the result does not depend on what an overflow would do.\<close>

lemma AdjustPrecision_roundtrip:
  assumes "wp \<le> ip" and "int (ip div wp) dvd sint x"
  shows "AdjustPrecision (AdjustPrecision x ip wp) wp ip = x"
proof (cases "ip \<le> wp")
  case True
  with assms have eq: "ip = wp" by simp
  show ?thesis
  proof (cases "wp = 0")
    case True
    with eq assms show ?thesis
      by (simp add: AdjustPrecision_def signed_eq_0_iff)
  next
    case False
    with eq show ?thesis
      by (simp add: AdjustPrecision_def)
  qed
next
  case False
  have "word_of_int (sint x sdiv int (ip div wp)) * (of_nat (ip div wp) :: 64 word)
      = word_of_int ((sint x sdiv int (ip div wp)) * int (ip div wp))"
    by simp
  also have "\<dots> = word_of_int (sint x)"
    using sdiv_exact [OF assms(2)] by simp
  finally show ?thesis
    using False assms(1) by (simp add: AdjustPrecision_def)
qed

text \<open>A count that is not a whole number of wire units is truncated: with a wire at
  least twice as coarse as the store, one unit becomes zero.\<close>

lemma AdjustPrecision_one_lost:
  assumes "0 < wp" and "2 * wp \<le> ip"
  shows "AdjustPrecision (AdjustPrecision 1 ip wp) wp ip = 0"
proof -
  have "2 \<le> ip div wp"
    using assms by (metis div_le_mono div_mult_self_is_m)
  then have "(1 :: int) sdiv int (ip div wp) = 0"
    by (simp add: signed_divide_int_def)
  moreover have "\<not> ip \<le> wp"
    using assms by simp
  ultimately show ?thesis
    by (simp add: AdjustPrecision_def)
qed

lemma AdjustPrecision_examples:
  "AdjustPrecision 5000 1000000 1000 = 5"
  "AdjustPrecision 5 1000 1000000 = 5000"
  "AdjustPrecision (- 3000) 1000000 1000 = - 3"
  "AdjustPrecision (- 3) 1000 1000000 = - 3000"
  "AdjustPrecision 1 1000000 1000 = 0"
  "AdjustPrecision 0 1000 1000000 = 0"
  by (simp_all add: AdjustPrecision_def signed_divide_int_def)

lemma Store64_examples:
  "Store64 0 = [0, 0, 0, 0, 0, 0, 0, 0]"
  "Store64 5 = [0, 0, 0, 0, 0, 0, 0, 5]"
  by (simp_all add: Store64_def)

subsection \<open>Round trip\<close>

lemma sint_of_nat_small:
  assumes "n < 2 ^ 31"
  shows "sint (of_nat n :: 32 word) = int n"
proof -
  have "signed_take_bit 31 (int n) = int n"
    by (rule signed_take_bit_int_eq_self) (use assms in simp_all)
  then show ?thesis
    by (simp add: signed_of_nat)
qed

lemma of_nat_not_minus1:
  assumes "n < 2 ^ 31"
  shows "(of_nat n :: 32 word) \<noteq> - 1"
proof
  assume "(of_nat n :: 32 word) = - 1"
  then have "sint (of_nat n :: 32 word) = sint (- 1 :: 32 word)"
    by simp
  then show False
    using sint_of_nat_small [OF assms] by simp
qed

lemma size_t_of_int32_of_nat:
  assumes "n < 2 ^ 31"
  shows "size_t_of_int32 (of_nat n) = n"
proof -
  have "n < 2 ^ 64"
    using assms by (rule less_trans) simp
  then show ?thesis
    by (simp add: size_t_of_int32_def scast_eq sint_of_nat_small [OF assms] unat_of_nat)
qed

lemma CQLDecodeNum_exact:
  "length bs = sz \<Longrightarrow> CQLDecodeNum sz sz conv (bs @ rest) = Inr (conv (bs @ rest), rest)"
  by (simp add: CQLDecodeNum_def)

lemma Deserialize_switch_wellformed:
  "Deserialize_switch dt v INT8 1 (Store8 i8 @ rest) = Done (OK, set_int8_value i8 v, rest)"
  "Deserialize_switch dt v INT16 2 (Store16 i16 @ rest) = Done (OK, set_int16_value i16 v, rest)"
  "Deserialize_switch dt v INT32 4 (Store32 i32 @ rest) = Done (OK, set_int32_value i32 v, rest)"
  "Deserialize_switch dt v INT64 8 (Store64 i64 @ rest) = Done (OK, set_int64_value i64 v, rest)"
  "Deserialize_switch dt v FLOAT 4 (Store32 f @ rest) = Done (OK, set_float_value f v, rest)"
  "Deserialize_switch dt v DOUBLE 8 (Store64 d @ rest) = Done (OK, set_double_value d v, rest)"
  "Deserialize_switch dt v BOOL 1 (Store8 (if b then 1 else 0) @ rest)
     = Done (OK, set_bool_value b v, rest)"
  "Deserialize_switch dt v TIMESTAMP 8 (Store64 w @ rest)
     = Done (OK, set_timestamp_value
                   (AdjustPrecision w (input_precision dt) (internal_precision dt)) v, rest)"
  by (simp_all add: Deserialize_switch_def CQLDeserializeNum_def CQLDeserializeFloat_def
      CQLDecodeFloat_def size_t_of_int32_small CQLDecodeNum_exact
      Load8_Store8 Load16_Store16 Load32_Store32 Load64_Store64)

lemma Deserialize_switch_String:
  assumes "length str < 2 ^ 31"
  shows "Deserialize_switch dt v STRING (of_nat (length str)) (map byte_of_char str @ rest)
     = Done (OK, set_string_value str v, rest)"
  by (simp add: Deserialize_switch_def CQLDecodeBytes_def size_t_of_int32_of_nat [OF assms]
      comp_def)

lemma small_not_minus1:
  "(1 :: 32 word) \<noteq> - 1" "(2 :: 32 word) \<noteq> - 1" "(4 :: 32 word) \<noteq> - 1"
  "(8 :: 32 word) \<noteq> - 1"
  by simp_all

lemma ucast_scast_8: "(ucast (scast (x :: 8 word) :: 32 word) :: 8 word) = x"
  by (rule bit_word_eqI) (auto simp add: bit_simps)

lemma ucast_scast_16: "(ucast (scast (x :: 16 word) :: 32 word) :: 16 word) = x"
  by (rule bit_word_eqI) (auto simp add: bit_simps)

lemmas setter_defs =
  set_int8_value_def set_int16_value_def set_int32_value_def set_int64_value_def
  set_float_value_def set_double_value_def set_bool_value_def set_string_value_def
  set_timestamp_value_def

lemma roundtrip_fixed:
  "\<exists>bs. Serialize dt (set_int8_value i8 u) YQL_CLIENT_CQL [] = Done bs
     \<and> Deserialize dt v INT8 YQL_CLIENT_CQL (bs @ rest) = Done (OK, set_int8_value i8 u, rest)"
  "\<exists>bs. Serialize dt (set_int16_value i16 u) YQL_CLIENT_CQL [] = Done bs
     \<and> Deserialize dt v INT16 YQL_CLIENT_CQL (bs @ rest) = Done (OK, set_int16_value i16 u, rest)"
  "\<exists>bs. Serialize dt (set_int32_value i32 u) YQL_CLIENT_CQL [] = Done bs
     \<and> Deserialize dt v INT32 YQL_CLIENT_CQL (bs @ rest) = Done (OK, set_int32_value i32 u, rest)"
  "\<exists>bs. Serialize dt (set_int64_value i64 u) YQL_CLIENT_CQL [] = Done bs
     \<and> Deserialize dt v INT64 YQL_CLIENT_CQL (bs @ rest) = Done (OK, set_int64_value i64 u, rest)"
  "\<exists>bs. Serialize dt (set_float_value f u) YQL_CLIENT_CQL [] = Done bs
     \<and> Deserialize dt v FLOAT YQL_CLIENT_CQL (bs @ rest) = Done (OK, set_float_value f u, rest)"
  "\<exists>bs. Serialize dt (set_double_value d u) YQL_CLIENT_CQL [] = Done bs
     \<and> Deserialize dt v DOUBLE YQL_CLIENT_CQL (bs @ rest) = Done (OK, set_double_value d u, rest)"
  "\<exists>bs. Serialize dt (set_bool_value b u) YQL_CLIENT_CQL [] = Done bs
     \<and> Deserialize dt v BOOL YQL_CLIENT_CQL (bs @ rest) = Done (OK, set_bool_value b u, rest)"
  by (simp_all add: setter_defs Serialize_layout Deserialize_length small_not_minus1
      Deserialize_switch_wellformed ucast_scast_8 ucast_scast_16)

lemma roundtrip_String:
  assumes "length str < 2 ^ 31"
  shows "\<exists>bs. Serialize dt (set_string_value str u) YQL_CLIENT_CQL [] = Done bs
     \<and> Deserialize dt v STRING YQL_CLIENT_CQL (bs @ rest) = Done (OK, set_string_value str u, rest)"
  using assms
  by (simp add: setter_defs Serialize_layout Deserialize_length of_nat_not_minus1
      Deserialize_switch_String)

lemma roundtrip_Timestamp:
  assumes "input_precision dt \<le> internal_precision dt"
    and "int (internal_precision dt div input_precision dt) dvd sint ts"
  shows "\<exists>bs. Serialize dt (set_timestamp_value ts u) YQL_CLIENT_CQL [] = Done bs
     \<and> Deserialize dt v TIMESTAMP YQL_CLIENT_CQL (bs @ rest)
         = Done (OK, set_timestamp_value ts u, rest)"
  by (simp add: setter_defs Serialize_layout Deserialize_length small_not_minus1
      Deserialize_switch_wellformed AdjustPrecision_roundtrip [OF assms])

lemma roundtrip_null:
  "\<exists>bs. Serialize dt NotSet YQL_CLIENT_CQL [] = Done bs
     \<and> (\<exists>v'. Deserialize dt v type YQL_CLIENT_CQL (bs @ rest) = Done (OK, v', rest) \<and> IsNull v')"
  by (simp add: Serialize_layout Deserialize_length IsNull_def)

text \<open>The length field has 32 bits and is signed: the length of a String of \<open>2^31\<close>
  bytes is written as a negative number, and \<^verbatim>\<open>Deserialize\<close> returns an error on the
  bytes that \<^verbatim>\<open>Serialize\<close> wrote.\<close>

lemma size_t_of_int32_negative: "size_t_of_int32 2147483648 = 18446744071562067968"
  by (simp add: size_t_of_int32_def)

lemma String_length_overflow:
  "\<exists>bs. Serialize dt (set_string_value (replicate (2 ^ 31) c) NotSet) YQL_CLIENT_CQL [] = Done bs
     \<and> (\<exists>data'. Deserialize dt v STRING YQL_CLIENT_CQL bs = Done (NetworkError, v, data'))"
proof -
  have len: "(word_of_nat 2147483648 :: 32 word) = 2147483648"
    by simp
  have "Deserialize dt v STRING YQL_CLIENT_CQL
      (Store32 2147483648 @ map byte_of_char (replicate (2 ^ 31) c))
      = Done (NetworkError, v, map byte_of_char (replicate (2 ^ 31) c))"
    by (simp add: Deserialize_length Deserialize_switch_def CQLDecodeBytes_def
        size_t_of_int32_negative)
  then show ?thesis
    by (simp add: set_string_value_def Serialize_layout len del: of_nat_numeral)
qed

text \<open>
  Claim C1, as stated, fails for Timestamp values. \<^verbatim>\<open>Serialize\<close> converts the stored
  count to the precision of the wire and \<^verbatim>\<open>Deserialize\<close> converts back; a wire coarser
  than the store drops what is below one wire unit. With microseconds stored and
  milliseconds on the wire, the Timestamp \<open>1\<close> is written as \<open>0\<close> and read back as \<open>0\<close>.
\<close>

theorem Timestamp_roundtrip_loses_units:
  "Serialize micros_millis (set_timestamp_value 1 NotSet) YQL_CLIENT_CQL []
     = Done [0, 0, 0, 8, 0, 0, 0, 0, 0, 0, 0, 0]
   \<and> Deserialize micros_millis NotSet TIMESTAMP YQL_CLIENT_CQL [0, 0, 0, 8, 0, 0, 0, 0, 0, 0, 0, 0]
     = Done (OK, TimestampField 0, [])
   \<and> TimestampField 0 \<noteq> set_timestamp_value 1 NotSet"
proof -
  have "Deserialize micros_millis NotSet TIMESTAMP YQL_CLIENT_CQL (Store32 8 @ Store64 0 @ [])
      = Done (OK, TimestampField 0, [])"
    by (simp only: Deserialize_length Deserialize_switch_wellformed small_not_minus1 if_False)
      (simp add: micros_millis_def AdjustPrecision_examples set_timestamp_value_def)
  then show ?thesis
    by (simp add: Serialize_layout micros_millis_def AdjustPrecision_examples Store32_small
        Store64_examples set_timestamp_value_def)
qed

text \<open>
  Claim C1, amended. For every value of kind Int8, Int16, Int32, Int64, Float, Double
  or Bool (the minimum, the maximum and zero of the kind among them), for every String
  of fewer than \<open>2^31\<close> bytes, and for every Timestamp whose count is a whole number of
  wire units when the wire precision is coarser than or equal to the internal one:
  \<^verbatim>\<open>Serialize\<close> returns bytes from which \<^verbatim>\<open>Deserialize\<close>, given the same declared
  kind, returns \<^verbatim>\<open>OK\<close>, a destination equal to the value and the rest of the slice.
  The bytes of a null value are read back, under every declared type, as a value for
  which \<^verbatim>\<open>IsNull\<close> holds. The methods of the wrapper return what the static functions
  return.
\<close>

theorem Deserialize_Serialize_roundtrip:
  assumes "length str < 2 ^ 31"
    and "input_precision dt \<le> internal_precision dt"
    and "int (internal_precision dt div input_precision dt) dvd sint ts"
  shows
    "(\<exists>bs. Serialize dt (set_int8_value i8 u) YQL_CLIENT_CQL [] = Done bs
        \<and> Deserialize dt v INT8 YQL_CLIENT_CQL (bs @ rest) = Done (OK, set_int8_value i8 u, rest))
   \<and> (\<exists>bs. Serialize dt (set_int16_value i16 u) YQL_CLIENT_CQL [] = Done bs
        \<and> Deserialize dt v INT16 YQL_CLIENT_CQL (bs @ rest) = Done (OK, set_int16_value i16 u, rest))
   \<and> (\<exists>bs. Serialize dt (set_int32_value i32 u) YQL_CLIENT_CQL [] = Done bs
        \<and> Deserialize dt v INT32 YQL_CLIENT_CQL (bs @ rest) = Done (OK, set_int32_value i32 u, rest))
   \<and> (\<exists>bs. Serialize dt (set_int64_value i64 u) YQL_CLIENT_CQL [] = Done bs
        \<and> Deserialize dt v INT64 YQL_CLIENT_CQL (bs @ rest) = Done (OK, set_int64_value i64 u, rest))
   \<and> (\<exists>bs. Serialize dt (set_float_value f u) YQL_CLIENT_CQL [] = Done bs
        \<and> Deserialize dt v FLOAT YQL_CLIENT_CQL (bs @ rest) = Done (OK, set_float_value f u, rest))
   \<and> (\<exists>bs. Serialize dt (set_double_value d u) YQL_CLIENT_CQL [] = Done bs
        \<and> Deserialize dt v DOUBLE YQL_CLIENT_CQL (bs @ rest) = Done (OK, set_double_value d u, rest))
   \<and> (\<exists>bs. Serialize dt (set_string_value str u) YQL_CLIENT_CQL [] = Done bs
        \<and> Deserialize dt v STRING YQL_CLIENT_CQL (bs @ rest) = Done (OK, set_string_value str u, rest))
   \<and> (\<exists>bs. Serialize dt (set_bool_value b u) YQL_CLIENT_CQL [] = Done bs
        \<and> Deserialize dt v BOOL YQL_CLIENT_CQL (bs @ rest) = Done (OK, set_bool_value b u, rest))
   \<and> (\<exists>bs. Serialize dt (set_timestamp_value ts u) YQL_CLIENT_CQL [] = Done bs
        \<and> Deserialize dt v TIMESTAMP YQL_CLIENT_CQL (bs @ rest)
            = Done (OK, set_timestamp_value ts u, rest))
   \<and> (\<exists>bs. Serialize dt NotSet YQL_CLIENT_CQL [] = Done bs
        \<and> (\<exists>v'. Deserialize dt v type YQL_CLIENT_CQL (bs @ rest) = Done (OK, v', rest)
                \<and> IsNull v'))
   \<and> YQLValue_Serialize dt val client buf = Serialize dt val client buf
   \<and> YQLValue_Deserialize dt v type client data = Deserialize dt v type client data"
  using roundtrip_fixed [of dt _ u v rest] roundtrip_String [OF assms(1), of dt u v rest]
    roundtrip_Timestamp [OF assms(2,3), of u v rest] roundtrip_null [of dt v type rest]
  by (simp only: YQLValue_Serialize_eq YQLValue_Deserialize_eq simp_thms)

theorem Deserialize_Serialize_roundtrip_witness:
  "length ''ab'' < 2 ^ 31
   \<and> input_precision micros_millis \<le> internal_precision micros_millis
   \<and> int (internal_precision micros_millis div input_precision micros_millis)
        dvd sint (5000 :: 64 word)
   \<and> (\<exists>bs. Serialize micros_millis (set_int8_value (- 128) NotSet) YQL_CLIENT_CQL [] = Done bs
        \<and> Deserialize micros_millis NotSet INT8 YQL_CLIENT_CQL bs
            = Done (OK, set_int8_value (- 128) NotSet, []))
   \<and> (\<exists>bs. Serialize micros_millis (set_int64_value 0x7FFFFFFFFFFFFFFF NotSet) YQL_CLIENT_CQL []
            = Done bs
        \<and> Deserialize micros_millis NotSet INT64 YQL_CLIENT_CQL bs
            = Done (OK, set_int64_value 0x7FFFFFFFFFFFFFFF NotSet, []))
   \<and> (\<exists>bs. Serialize micros_millis (set_string_value ''ab'' NotSet) YQL_CLIENT_CQL [] = Done bs
        \<and> Deserialize micros_millis NotSet STRING YQL_CLIENT_CQL bs
            = Done (OK, set_string_value ''ab'' NotSet, []))
   \<and> (\<exists>bs. Serialize micros_millis (set_timestamp_value 5000 NotSet) YQL_CLIENT_CQL [] = Done bs
        \<and> Deserialize micros_millis NotSet TIMESTAMP YQL_CLIENT_CQL bs
            = Done (OK, set_timestamp_value 5000 NotSet, []))"
proof -
  have hyps: "length ''ab'' < 2 ^ 31"
    "input_precision micros_millis \<le> internal_precision micros_millis"
    "int (internal_precision micros_millis div input_precision micros_millis)
       dvd sint (5000 :: 64 word)"
    by (simp_all add: micros_millis_def)
  show ?thesis
    using hyps
      Deserialize_Serialize_roundtrip [OF hyps, where ?i8.0 = "- 128"
        and ?i64.0 = "0x7FFFFFFFFFFFFFFF" and u = NotSet and v = NotSet and rest = "[]"]
    by simp
qed

lemma AdjustPrecision_roundtrip_multiple:
  assumes "0 < wp" and "ip = k * wp" and "int k dvd sint x"
  shows "AdjustPrecision (AdjustPrecision x ip wp) wp ip = x"
proof (cases "k = 0")
  case True
  with assms have "x = 0" and "ip = 0"
    by (simp_all add: signed_eq_0_iff)
  with assms(1) show ?thesis
    by (simp add: AdjustPrecision_def)
next
  case False
  with assms have "wp \<le> ip" and "ip div wp = k"
    by simp_all
  with assms(3) show ?thesis
    by (simp add: AdjustPrecision_roundtrip)
qed

text \<open>
  Claim C4, as stated, fails. Its condition is on the two precisions: the internal one
  is an integer multiple of the wire one. With microseconds stored and milliseconds on
  the wire the internal precision is 1000 times the wire precision, and \<^verbatim>\<open>Serialize\<close>
  writes the Timestamp \<open>1\<close> as the wire count \<open>0\<close>, which \<^verbatim>\<open>Deserialize\<close> reads back as
  the Timestamp \<open>0\<close>: the division towards the coarser precision truncates.
\<close>

theorem Timestamp_lost_under_multiple_precision:
  "internal_precision micros_millis = 1000 * input_precision micros_millis
   \<and> Serialize micros_millis (TimestampField 1) YQL_CLIENT_CQL []
       = Done [0, 0, 0, 8, 0, 0, 0, 0, 0, 0, 0, 0]
   \<and> Deserialize micros_millis NotSet TIMESTAMP YQL_CLIENT_CQL
        [0, 0, 0, 8, 0, 0, 0, 0, 0, 0, 0, 0]
       = Done (OK, TimestampField 0, [])
   \<and> TimestampField 0 \<noteq> TimestampField 1"
proof -
  have "Deserialize micros_millis NotSet TIMESTAMP YQL_CLIENT_CQL (Store32 8 @ Store64 0 @ [])
      = Done (OK, TimestampField 0, [])"
    by (simp only: Deserialize_length Deserialize_switch_wellformed small_not_minus1 if_False)
      (simp add: micros_millis_def AdjustPrecision_examples set_timestamp_value_def)
  then show ?thesis
    by (simp add: Serialize_layout micros_millis_def AdjustPrecision_examples Store32_small
        Store64_examples)
qed

text \<open>
  Claim C4, amended. Let the internal precision be an integer multiple \<open>k\<close> of the wire
  precision (the claim's condition), and let the internal count of the Timestamp be an
  integer multiple of \<open>k\<close>, that is a whole number of wire units. Then \<^verbatim>\<open>Serialize\<close>
  writes the length 8 and the count converted to wire precision, and \<^verbatim>\<open>Deserialize\<close> of
  these bytes converts back and stores the original 64 bit count exactly; the same for
  the methods of the wrapper.
\<close>

theorem Timestamp_precision_roundtrip:
  assumes "0 < input_precision dt"
    and "internal_precision dt = k * input_precision dt"
    and "int k dvd sint ts"
  shows
    "Serialize dt (TimestampField ts) YQL_CLIENT_CQL buf
       = Done (buf @ Store32 8
                 @ Store64 (AdjustPrecision ts (internal_precision dt) (input_precision dt)))
   \<and> Deserialize dt v TIMESTAMP YQL_CLIENT_CQL
        (Store32 8 @ Store64 (AdjustPrecision ts (internal_precision dt) (input_precision dt))
           @ rest)
       = Done (OK, TimestampField ts, rest)
   \<and> YQLValue_Serialize dt (TimestampField ts) YQL_CLIENT_CQL buf
       = Done (buf @ Store32 8
                 @ Store64 (AdjustPrecision ts (internal_precision dt) (input_precision dt)))
   \<and> YQLValue_Deserialize dt v TIMESTAMP YQL_CLIENT_CQL
        (Store32 8 @ Store64 (AdjustPrecision ts (internal_precision dt) (input_precision dt))
           @ rest)
       = Done (OK, TimestampField ts, rest)
   \<and> AdjustPrecision (AdjustPrecision ts (internal_precision dt) (input_precision dt))
        (input_precision dt) (internal_precision dt) = ts"
  by (simp add: YQLValue_Serialize_eq YQLValue_Deserialize_eq Serialize_layout
      Deserialize_length small_not_minus1 Deserialize_switch_wellformed
      set_timestamp_value_def AdjustPrecision_roundtrip_multiple [OF assms])

theorem Timestamp_precision_roundtrip_witness:
  "0 < input_precision micros_millis
   \<and> internal_precision micros_millis = 1000 * input_precision micros_millis
   \<and> int 1000 dvd sint (5000 :: 64 word)
   \<and> Serialize micros_millis (TimestampField 5000) YQL_CLIENT_CQL []
       = Done [0, 0, 0, 8, 0, 0, 0, 0, 0, 0, 0, 5]
   \<and> Deserialize micros_millis NotSet TIMESTAMP YQL_CLIENT_CQL
        [0, 0, 0, 8, 0, 0, 0, 0, 0, 0, 0, 5]
       = Done (OK, TimestampField 5000, [])"
proof -
  have hyps: "0 < input_precision micros_millis"
    "internal_precision micros_millis = 1000 * input_precision micros_millis"
    "int 1000 dvd sint (5000 :: 64 word)"
    by (simp_all add: micros_millis_def)
  show ?thesis
    using hyps
      Timestamp_precision_roundtrip [OF hyps, where buf = "[]" and v = NotSet and rest = "[]"]
    by (simp add: micros_millis_def AdjustPrecision_examples Store32_small Store64_examples)
qed

section \<open>The wrapper against the static functions\<close>

lemma sint_scast_8_32: "sint (scast (x :: 8 word) :: 32 word) = sint x"
  by (rule sint_up_scast) (simp add: is_up)

lemma sint_scast_16_32: "sint (scast (x :: 16 word) :: 32 word) = sint x"
  by (rule sint_up_scast) (simp add: is_up)

lemma word_sless_narrow8:
  assumes "scast (ucast x :: 8 word) = (x :: 32 word)" and "scast (ucast y :: 8 word) = y"
  shows "word_sless (ucast x :: 8 word) (ucast y) = word_sless x y"
proof -
  have "sint x = sint (ucast x :: 8 word)" and "sint y = sint (ucast y :: 8 word)"
    using sint_scast_8_32 [of "ucast x"] sint_scast_8_32 [of "ucast y"] assms by simp_all
  then show ?thesis
    by (simp add: word_sless_alt)
qed

lemma word_sless_narrow16:
  assumes "scast (ucast x :: 16 word) = (x :: 32 word)" and "scast (ucast y :: 16 word) = y"
  shows "word_sless (ucast x :: 16 word) (ucast y) = word_sless x y"
proof -
  have "sint x = sint (ucast x :: 16 word)" and "sint y = sint (ucast y :: 16 word)"
    using sint_scast_16_32 [of "ucast x"] sint_scast_16_32 [of "ucast y"] assms by simp_all
  then show ?thesis
    by (simp add: word_sless_alt)
qed

text \<open>On values whose narrow fields are in range the method and the static function
  compare alike and print alike; \<^verbatim>\<open>Serialize\<close> and \<^verbatim>\<open>Deserialize\<close> agree on every
  value (\<open>YQLValue_Serialize_eq\<close>, \<open>YQLValue_Deserialize_eq\<close>).\<close>

lemma YQLValue_CompareTo_eq:
  assumes "narrow_fields_in_range a" and "narrow_fields_in_range b"
  shows "YQLValue_CompareTo a b = CompareTo a b"
  using assms
  by (cases a; cases b)
    (simp_all add: YQLValue_CompareTo_def CompareTo_def Comparable_def EitherIsNull_def
      BothNotNull_def override_defs type_PB_def IsNull_def getter_defs pb_getter_defs
      compare_with_def obind_def narrow_fields_in_range_def GenericCompare_def
      word_sless_narrow8 word_sless_narrow16)

lemma YQLValue_op_eq:
  assumes "narrow_fields_in_range a" and "narrow_fields_in_range b"
  shows "YQLValue_op a b op = YQL_COMPARE a b op"
  by (simp add: YQLValue_op_def YQL_COMPARE_def YQLValue_BothNotNull_def BothNotNull_def
      YQLValueWithPB_IsNull_def YQLValue_CompareTo_eq [OF assms])

lemma YQLValue_ToString_eq:
  assumes "narrow_fields_in_range v"
  shows "YQLValue_ToString fm v = ToString fm v"
proof (cases v)
  case (Int8Field x)
  with assms have "sint x = sint (ucast x :: 8 word)"
    using sint_scast_8_32 [of "ucast x"] by (simp add: narrow_fields_in_range_def)
  with Int8Field show ?thesis
    by (simp add: YQLValue_ToString_def ToString_def override_defs type_PB_def IsNull_def
        getter_defs pb_getter_defs obind_def)
next
  case (Int16Field x)
  with assms have "sint x = sint (ucast x :: 16 word)"
    using sint_scast_16_32 [of "ucast x"] by (simp add: narrow_fields_in_range_def)
  with Int16Field show ?thesis
    by (simp add: YQLValue_ToString_def ToString_def override_defs type_PB_def IsNull_def
        getter_defs pb_getter_defs obind_def)
qed (simp_all add: YQLValue_ToString_def ToString_def override_defs type_PB_def IsNull_def
    getter_defs pb_getter_defs obind_def)

lemma setters_in_range:
  "narrow_fields_in_range (set_int8_value i8 v)"
  "narrow_fields_in_range (set_int16_value i16 v)"
  by (simp_all add: narrow_fields_in_range_def set_int8_value_def set_int16_value_def
      ucast_scast_8 ucast_scast_16)

lemma wrapper_agrees_with_static:
  assumes "narrow_fields_in_range a" and "narrow_fields_in_range b"
  shows "YQLValue_CompareTo a b = CompareTo a b
       \<and> YQLValue_less a b = PB_less a b \<and> YQLValue_not_equal a b = PB_not_equal a b
       \<and> YQLValue_ToString fm a = ToString fm a
       \<and> YQLValue_Serialize dt a client buf = Serialize dt a client buf
       \<and> YQLValue_Deserialize dt a type client data = Deserialize dt a type client data"
  by (simp add: YQLValue_CompareTo_eq [OF assms] YQLValue_op_eq [OF assms]
      YQLValue_ToString_eq [OF assms(1)] YQLValue_Serialize_eq YQLValue_Deserialize_eq
      YQLValue_less_def PB_less_def YQLValue_not_equal_def PB_not_equal_def)

lemma decimal_examples: "decimal 0 = ''0''" "decimal 256 = ''256''"
  by code_simp+

text \<open>
  Claim C8 says that the methods of the wrapper and the static functions on the record
  return the same results for every value. The code does not: the record can hold an
  Int8 field outside the range of \<^verbatim>\<open>int8_t\<close>, here 256. The method \<^verbatim>\<open>CompareTo\<close> reads
  it through the getter, which narrows it to 0, and answers \<open>-1\<close> against 1; the static
  \<^verbatim>\<open>CompareTo\<close> compares the 32 bit fields and answers \<open>1\<close>. The operators and
  \<^verbatim>\<open>ToString\<close> differ in the same way, while both \<^verbatim>\<open>Serialize\<close> functions narrow the
  field and write the same bytes.
\<close>

theorem wrapper_and_static_differ_on_wide_Int8:
  "CompareTo (Int8Field 256) (Int8Field 1) = Done 1
   \<and> YQLValue_CompareTo (Int8Field 256) (Int8Field 1) = Done (- 1)
   \<and> PB_less (Int8Field 256) (Int8Field 1) = Done False
   \<and> YQLValue_less (Int8Field 256) (Int8Field 1) = Done True
   \<and> ToString fm (Int8Field 256) = Done ''INT8:256''
   \<and> YQLValue_ToString fm (Int8Field 256) = Done ''INT8:0''
   \<and> Serialize dt (Int8Field 256) YQL_CLIENT_CQL [] = Done [0, 0, 0, 1, 0]
   \<and> YQLValue_Serialize dt (Int8Field 256) YQL_CLIENT_CQL [] = Done [0, 0, 0, 1, 0]"
proof -
  have cmp_static: "CompareTo (Int8Field 256) (Int8Field 1) = Done 1"
    by (simp add: CompareTo_def Comparable_def BothNotNull_def IsNull_def pb_getter_defs
        GenericCompare_def word_sless_alt)
  have cmp_wrapper: "YQLValue_CompareTo (Int8Field 256) (Int8Field 1) = Done (- 1)"
    by (simp add: YQLValue_CompareTo_def override_defs type_PB_def IsNull_def getter_defs
        compare_with_def obind_def GenericCompare_def word_sless_alt)
  have "PB_less (Int8Field 256) (Int8Field 1) = Done False"
    by (simp add: PB_less_def YQL_COMPARE_def BothNotNull_def IsNull_def cmp_static obind_def)
  moreover have "YQLValue_less (Int8Field 256) (Int8Field 1) = Done True"
    by (simp add: YQLValue_less_def YQLValue_op_def YQLValue_BothNotNull_def
        YQLValueWithPB_IsNull_def IsNull_def cmp_wrapper obind_def)
  moreover have "ToString fm (Int8Field 256) = Done ''INT8:256''"
    by (simp add: ToString_def type_PB_def IsNull_def pb_getter_defs to_string_def
        decimal_examples)
  moreover have "YQLValue_ToString fm (Int8Field 256) = Done ''INT8:0''"
    by (simp add: YQLValue_ToString_def override_defs type_PB_def IsNull_def getter_defs
        obind_def to_string_def decimal_examples)
  moreover have "Serialize dt (Int8Field 256) YQL_CLIENT_CQL [] = Done [0, 0, 0, 1, 0]"
    by (simp add: Serialize_layout Store32_small Store8_def)
  ultimately show ?thesis
    using cmp_static cmp_wrapper by (simp add: YQLValue_Serialize_eq)
qed

end
